theory Spec2Isabelle
  imports Main
begin

section \<open>Values the script handles\<close>

text \<open>
  The script \<^verbatim>\<open>cloudflare_ddns.py\<close> talks to the outside world through the
  \<^verbatim>\<open>requests\<close> library and through a logger. The model below keeps the script's own
  control flow and data and takes the library's answers as an environment.

  Python \<^verbatim>\<open>str\<close> values are modelled as \<^typ>\<open>string\<close>; a character stands for a code point
  below 256. The fixed message texts of the log lines (Chinese text and platform symbols)
  are constructors of a datatype, carrying the values the f-strings interpolate.
\<close>

text \<open>What \<^verbatim>\<open>response.json()\<close> and the script's dict literals build. Numbers are
  integers; an object is the association list of its keys.\<close>

datatype json =
    JNull
  | JBool bool
  | JNum int
  | JStr string
  | JArr "json list"
  | JObj "(string \<times> json) list"

text \<open>A \<^verbatim>\<open>requests.Response\<close>, as far as the script reads it:
  \<^item> \<open>http_error\<close>: the text of the \<^verbatim>\<open>HTTPError\<close> that \<^verbatim>\<open>raise_for_status()\<close> raises for
    this response, \<open>None\<close> when the status is a success and it returns normally;
  \<^item> \<open>body_text\<close>: \<^verbatim>\<open>response.text\<close>;
  \<^item> \<open>json_body\<close>: what \<^verbatim>\<open>response.json()\<close> does, \<open>Inr\<close> the decoded value or \<open>Inl\<close> the
    text of the \<^verbatim>\<open>requests.exceptions.JSONDecodeError\<close> it raises (a \<^verbatim>\<open>RequestException\<close>
    that carries no response, as in the current releases of the library).\<close>

record response =
  http_error :: "string option"
  body_text :: string
  json_body :: "string + json"

text \<open>Exceptions. \<open>RequestException msg resp\<close> is any \<^verbatim>\<open>requests.exceptions.RequestException\<close>
  with \<^verbatim>\<open>str(e) = msg\<close> and \<^verbatim>\<open>e.response = resp\<close>. \<open>KeyboardInterrupt\<close> is the only one
  that is not an \<^verbatim>\<open>Exception\<close>.\<close>

datatype exn =
    KeyboardInterrupt
  | RequestException string "response option"
  | ValueError string
  | KeyError
  | IndexError
  | TypeError
  | AttributeError
  | OtherException string

fun is_Exception :: "exn \<Rightarrow> bool" where
  "is_Exception KeyboardInterrupt = False"
| "is_Exception _ = True"

text \<open>The endpoint strings handed to \<^verbatim>\<open>cf_api_request\<close>:
  \<^verbatim>\<open>f"dns_records?name={name}&type={type}"\<close>, \<^verbatim>\<open>"dns_records"\<close> and
  \<^verbatim>\<open>f"dns_records/{record_id}"\<close>, kept as the values interpolated.\<close>

datatype endpoint =
    DnsRecordsQuery string string
  | DnsRecords
  | DnsRecord json

text \<open>A URL is either one of the public IP services or
  \<^verbatim>\<open>f"https://api.cloudflare.com/client/v4/zones/{ZONE_ID}/{endpoint}"\<close>.\<close>

datatype url =
    ServiceUrl string
  | ApiUrl string endpoint

text \<open>One call of \<^verbatim>\<open>requests.get\<close>, \<^verbatim>\<open>requests.post\<close> or \<^verbatim>\<open>requests.put\<close>.\<close>

record request =
  meth :: string
  target :: url
  headers :: "(string \<times> string) list"
  payload :: "json option"
  timeout :: "nat option"

text \<open>What the library does with a request: it raises, or it returns a response. The
  requests of one run are pairwise different (each IP service once, one \<^verbatim>\<open>GET\<close> to the
  provider, one \<^verbatim>\<open>POST\<close> or \<^verbatim>\<open>PUT\<close>), so the world a run meets is a function from requests
  to replies. A keyboard interrupt is taken to arrive while a request is waiting.\<close>

datatype reply = Raise exn | Return response

type_synonym env = "request \<Rightarrow> reply"

text \<open>The configuration keys the update reads (\<^verbatim>\<open>self.config[...]\<close>).\<close>

record config =
  API_TOKEN :: string
  ZONE_ID :: string
  RECORD_NAME :: string
  RECORD_TYPE :: string
  TTL :: int

text \<open>The value of \<^verbatim>\<open>....get("message", "\<dots>")\<close>: the message found, or the fixed default
  text (``unknown error'').\<close>

datatype err = Message json | UnknownError

datatype level = DEBUG | INFO | WARNING | ERROR

text \<open>One constructor for each message text the source logs, in source order.\<close>

datatype message =
    MsgGotIp string
  | MsgServiceFailed string exn
  | MsgAllServicesFailed
  | MsgApiRequestFailed string
  | MsgStart string
  | MsgFailed
  | MsgApiError err
  | MsgCreating string
  | MsgCreated json
  | MsgDone
  | MsgCreateFailed err
  | MsgMultiple nat
  | MsgUnchanged
  | MsgChanged json string
  | MsgUpdated string string
  | MsgUpdateFailed err

text \<open>What a run does to the outside world, in order: requests sent and log lines
  written. The script never reads either back, so a computation is its result together
  with the events it caused.\<close>

datatype event = Call request | Log level message

type_synonym 'a prog = "(exn + 'a) \<times> event list"

definition ret :: "'a \<Rightarrow> 'a prog" where
  "ret x = (Inr x, [])"

definition raise :: "exn \<Rightarrow> 'a prog" where
  "raise e = (Inl e, [])"

definition bind :: "'a prog \<Rightarrow> ('a \<Rightarrow> 'b prog) \<Rightarrow> 'b prog" where
  "bind m f =
     (case m of
        (Inl e, t) \<Rightarrow> (Inl e, t)
      | (Inr x, t) \<Rightarrow> (case f x of (r, t') \<Rightarrow> (r, t @ t')))"

text \<open>\<^verbatim>\<open>try: m except <those e with h e = Some k>: k\<close>\<close>

definition catch :: "'a prog \<Rightarrow> (exn \<Rightarrow> 'a prog option) \<Rightarrow> 'a prog" where
  "catch m h =
     (case m of
        (Inl e, t) \<Rightarrow>
          (case h e of
             None \<Rightarrow> (Inl e, t)
           | Some k \<Rightarrow> (case k of (r, t') \<Rightarrow> (r, t @ t')))
      | (Inr x, t) \<Rightarrow> (Inr x, t))"

definition lift :: "exn + 'a \<Rightarrow> 'a prog" where
  "lift r = (r, [])"

definition logger :: "level \<Rightarrow> message \<Rightarrow> unit prog" where
  "logger lv m = (Inr (), [Log lv m])"

definition send :: "env \<Rightarrow> request \<Rightarrow> response prog" where
  "send env r = (case env r of Raise e \<Rightarrow> (Inl e, [Call r]) | Return resp \<Rightarrow> (Inr resp, [Call r]))"

definition requests_get :: "url \<Rightarrow> (string \<times> string) list \<Rightarrow> nat option \<Rightarrow> request" where
  "requests_get u hs t = \<lparr>meth = ''GET'', target = u, headers = hs, payload = None, timeout = t\<rparr>"

definition requests_post :: "url \<Rightarrow> (string \<times> string) list \<Rightarrow> json option \<Rightarrow> request" where
  "requests_post u hs d = \<lparr>meth = ''POST'', target = u, headers = hs, payload = d, timeout = None\<rparr>"

definition requests_put :: "url \<Rightarrow> (string \<times> string) list \<Rightarrow> json option \<Rightarrow> request" where
  "requests_put u hs d = \<lparr>meth = ''PUT'', target = u, headers = hs, payload = d, timeout = None\<rparr>"

definition raise_for_status :: "response \<Rightarrow> unit prog" where
  "raise_for_status r =
     (case http_error r of
        Some msg \<Rightarrow> raise (RequestException msg (Some r))
      | None \<Rightarrow> ret ())"

definition response_json :: "response \<Rightarrow> json prog" where
  "response_json r =
     (case json_body r of
        Inl msg \<Rightarrow> raise (RequestException msg None)
      | Inr j \<Rightarrow> ret j)"

section \<open>Python operations on decoded JSON\<close>

text \<open>Truth value of a Python object (\<^verbatim>\<open>if x\<close>, \<^verbatim>\<open>not x\<close>).\<close>

fun truthy :: "json \<Rightarrow> bool" where
  "truthy JNull = False"
| "truthy (JBool b) = b"
| "truthy (JNum n) = (n \<noteq> 0)"
| "truthy (JStr s) = (s \<noteq> [])"
| "truthy (JArr xs) = (xs \<noteq> [])"
| "truthy (JObj kvs) = (kvs \<noteq> [])"

text \<open>\<^verbatim>\<open>x.get(k)\<close>: \<open>None\<close> when the key is absent; only a dict has \<^verbatim>\<open>get\<close>.\<close>

fun dict_get :: "json \<Rightarrow> string \<Rightarrow> exn + json option" where
  "dict_get (JObj kvs) k = Inr (map_of kvs k)"
| "dict_get _ k = Inl AttributeError"

text \<open>\<^verbatim>\<open>x[k]\<close> with a string key.\<close>

fun getitem :: "json \<Rightarrow> string \<Rightarrow> exn + json" where
  "getitem (JObj kvs) k = (case map_of kvs k of None \<Rightarrow> Inl KeyError | Some v \<Rightarrow> Inr v)"
| "getitem _ k = Inl TypeError"

text \<open>\<^verbatim>\<open>x[0]\<close>.\<close>

fun index0 :: "json \<Rightarrow> exn + json" where
  "index0 (JArr []) = Inl IndexError"
| "index0 (JArr (x # xs)) = Inr x"
| "index0 (JStr []) = Inl IndexError"
| "index0 (JStr (c # cs)) = Inr (JStr [c])"
| "index0 (JObj kvs) = Inl KeyError"
| "index0 _ = Inl TypeError"

text \<open>\<^verbatim>\<open>len(x)\<close>.\<close>

fun len :: "json \<Rightarrow> exn + nat" where
  "len (JArr xs) = Inr (length xs)"
| "len (JStr s) = Inr (length s)"
| "len (JObj kvs) = Inr (length kvs)"
| "len _ = Inl TypeError"

text \<open>\<^verbatim>\<open>sep.join(xs)\<close> on a list of strings.\<close>

fun join :: "string \<Rightarrow> string list \<Rightarrow> string" where
  "join sep [] = []"
| "join sep [x] = x"
| "join sep (x # y # zs) = x @ sep @ join sep (y # zs)"

text \<open>\<^verbatim>\<open>str.strip()\<close>: the code points below 256 that Python counts as whitespace.\<close>

definition isspace :: "char \<Rightarrow> bool" where
  "isspace c = (c \<in> set [CHR 0x09, CHR 0x0A, CHR 0x0B, CHR 0x0C, CHR 0x0D,
                          CHR 0x1C, CHR 0x1D, CHR 0x1E, CHR 0x1F, CHR 0x20,
                          CHR 0x85, CHR 0xA0])"

definition strip :: "string \<Rightarrow> string" where
  "strip s = rev (dropWhile isspace (rev (dropWhile isspace s)))"

section \<open>\<^verbatim>\<open>get_public_ip\<close> (lines 198--227)\<close>

text \<open>The dict \<^verbatim>\<open>services\<close>; \<open>None\<close> is the \<^verbatim>\<open>KeyError\<close> of \<^verbatim>\<open>services[record_type]\<close>.\<close>

definition services :: "string \<Rightarrow> string list option" where
  "services t =
     (if t = ''A'' then
        Some [''https://api.ipify.org'', ''https://ipv4.icanhazip.com'',
              ''https://checkip.amazonaws.com'']
      else if t = ''AAAA'' then
        Some [''https://api6.ipify.org'', ''https://ipv6.icanhazip.com'',
              ''https://v6.ident.me'']
      else None)"

definition service_request :: "string \<Rightarrow> request" where
  "service_request service = requests_get (ServiceUrl service) [] (Some 10)"

text \<open>The body of the \<^verbatim>\<open>try\<close> for one service: \<open>Some ip\<close> is \<^verbatim>\<open>return ip\<close>, \<open>None\<close> falls
  out of the \<^verbatim>\<open>if ip:\<close> to the next iteration.\<close>

definition try_service :: "env \<Rightarrow> string \<Rightarrow> string option prog" where
  "try_service env service =
     bind (send env (service_request service)) (\<lambda>response.
     bind (raise_for_status response) (\<lambda>_.
       let ip = strip (body_text response) in
       if ip \<noteq> [] then bind (logger INFO (MsgGotIp ip)) (\<lambda>_. ret (Some ip))
       else ret None))"

text \<open>The \<^verbatim>\<open>for\<close> loop with its \<^verbatim>\<open>except Exception\<close>, and the lines after the loop.\<close>

fun try_services :: "env \<Rightarrow> string list \<Rightarrow> string option prog" where
  "try_services env [] =
     bind (logger ERROR MsgAllServicesFailed) (\<lambda>_. ret None)"
| "try_services env (service # rest) =
     bind (catch (try_service env service)
             (\<lambda>e. if is_Exception e
                   then Some (bind (logger DEBUG (MsgServiceFailed service e)) (\<lambda>_. ret None))
                   else None))
       (\<lambda>r. case r of Some ip \<Rightarrow> ret (Some ip) | None \<Rightarrow> try_services env rest)"

definition get_public_ip :: "config \<Rightarrow> env \<Rightarrow> string option prog" where
  "get_public_ip cfg env =
     (case services (RECORD_TYPE cfg) of
        None \<Rightarrow> raise KeyError
      | Some urls \<Rightarrow> try_services env urls)"

section \<open>\<^verbatim>\<open>cf_api_request\<close> (lines 229--262)\<close>

definition api_headers :: "config \<Rightarrow> (string \<times> string) list" where
  "api_headers cfg =
     [(''Authorization'', ''Bearer '' @ API_TOKEN cfg),
      (''Content-Type'', ''application/json'')]"

text \<open>The list comprehension \<^verbatim>\<open>[err["message"] for err in errs]\<close> followed by the type check
  of \<^verbatim>\<open>join\<close>: \<open>None\<close> when any step raises.\<close>

fun error_message :: "json \<Rightarrow> string option" where
  "error_message (JObj kvs) = (case map_of kvs ''message'' of Some (JStr m) \<Rightarrow> Some m | _ \<Rightarrow> None)"
| "error_message _ = None"

fun error_messages :: "json list \<Rightarrow> string list option" where
  "error_messages [] = Some []"
| "error_messages (e # es) =
     (case error_message e of
        None \<Rightarrow> None
      | Some m \<Rightarrow> (case error_messages es of None \<Rightarrow> None | Some ms \<Rightarrow> Some (m # ms)))"

text \<open>Iterating over \<^verbatim>\<open>error_resp["errors"]\<close>: a string yields its characters and a dict its
  keys, on which \<^verbatim>\<open>err["message"]\<close> raises; \<^verbatim>\<open>None\<close>, booleans and numbers are not iterable.\<close>

fun joined_errors :: "json \<Rightarrow> string option" where
  "joined_errors (JArr es) = map_option (join '', '') (error_messages es)"
| "joined_errors (JStr s) = (if s = [] then Some [] else None)"
| "joined_errors (JObj kvs) = (if kvs = [] then Some [] else None)"
| "joined_errors _ = None"

text \<open>The inner \<^verbatim>\<open>try\<close> (lines 253--259) with its bare \<^verbatim>\<open>except: pass\<close>: \<open>Some errors\<close> when
  line 257 is reached. A body that is not a dict never reaches it: the \<^verbatim>\<open>in\<close> test is
  false or raises, or \<^verbatim>\<open>error_resp["errors"]\<close> raises \<^verbatim>\<open>TypeError\<close>.\<close>

definition error_detail :: "response option \<Rightarrow> string option" where
  "error_detail resp =
     (case resp of
        None \<Rightarrow> None
      | Some r \<Rightarrow>
          (case json_body r of
             Inr (JObj kvs) \<Rightarrow>
               (case map_of kvs ''errors'' of None \<Rightarrow> None | Some errs \<Rightarrow> joined_errors errs)
           | _ \<Rightarrow> None))"

definition failure :: "string \<Rightarrow> json" where
  "failure error_msg =
     JObj [(''success'', JBool False), (''errors'', JArr [JObj [(''message'', JStr error_msg)]])]"

definition api_url :: "config \<Rightarrow> endpoint \<Rightarrow> url" where
  "api_url cfg ep = ApiUrl (ZONE_ID cfg) ep"

definition cf_api_request :: "config \<Rightarrow> env \<Rightarrow> string \<Rightarrow> endpoint \<Rightarrow> json option \<Rightarrow> json prog" where
  "cf_api_request cfg env method ep data =
     catch
       (bind (if method = ''GET'' then send env (requests_get (api_url cfg ep) (api_headers cfg) None)
              else if method = ''POST'' then send env (requests_post (api_url cfg ep) (api_headers cfg) data)
              else if method = ''PUT'' then send env (requests_put (api_url cfg ep) (api_headers cfg) data)
              else raise (ValueError method)) (\<lambda>response.
        bind (raise_for_status response) (\<lambda>_.
        response_json response)))
       (\<lambda>e. case e of
          RequestException msg resp \<Rightarrow>
            let error_msg = (case error_detail resp of
                               Some errors \<Rightarrow> msg @ '' | '' @ errors
                             | None \<Rightarrow> msg)
            in Some (bind (logger ERROR (MsgApiRequestFailed error_msg)) (\<lambda>_.
                     ret (failure error_msg)))
        | _ \<Rightarrow> None)"

section \<open>\<^verbatim>\<open>update_dns\<close> (lines 264--344)\<close>

text \<open>\<^verbatim>\<open>x.get(k, d)\<close>\<close>

definition get_default :: "json \<Rightarrow> string \<Rightarrow> json \<Rightarrow> exn + json" where
  "get_default x k d =
     (case dict_get x k of Inl e \<Rightarrow> Inl e | Inr None \<Rightarrow> Inr d | Inr (Some v) \<Rightarrow> Inr v)"

text \<open>\<^verbatim>\<open>x.get("success")\<close> as a condition: an absent key gives \<^verbatim>\<open>None\<close>, which is false.\<close>

definition get_success :: "json \<Rightarrow> exn + bool" where
  "get_success x =
     (case dict_get x ''success'' of
        Inl e \<Rightarrow> Inl e
      | Inr None \<Rightarrow> Inr False
      | Inr (Some v) \<Rightarrow> Inr (truthy v))"

text \<open>\<^verbatim>\<open>x.get("errors", [{}])[0].get("message", "\<dots>")\<close>\<close>

definition first_error :: "json \<Rightarrow> exn + err" where
  "first_error x =
     (case get_default x ''errors'' (JArr [JObj []]) of
        Inl e \<Rightarrow> Inl e
      | Inr errs \<Rightarrow>
          (case index0 errs of
             Inl e \<Rightarrow> Inl e
           | Inr e0 \<Rightarrow>
               (case dict_get e0 ''message'' of
                  Inl e \<Rightarrow> Inl e
                | Inr None \<Rightarrow> Inr UnknownError
                | Inr (Some m) \<Rightarrow> Inr (Message m))))"

text \<open>The dict built at lines 289--295 and again at lines 326--332.\<close>

definition record_data :: "config \<Rightarrow> string \<Rightarrow> json" where
  "record_data cfg current_ip =
     JObj [(''type'', JStr (RECORD_TYPE cfg)),
           (''name'', JStr (RECORD_NAME cfg)),
           (''content'', JStr current_ip),
           (''ttl'', JNum (TTL cfg)),
           (''proxied'', JBool False)]"

text \<open>Lines 288--308, the body of \<^verbatim>\<open>if not records\<close>.\<close>

definition create_record :: "config \<Rightarrow> env \<Rightarrow> string \<Rightarrow> bool prog" where
  "create_record cfg env current_ip =
     bind (logger WARNING (MsgCreating (RECORD_NAME cfg))) (\<lambda>_.
     bind (cf_api_request cfg env ''POST'' DnsRecords (Some (record_data cfg current_ip))) (\<lambda>create_result.
     bind (lift (get_success create_result)) (\<lambda>success.
       if success then
         bind (lift (case getitem create_result ''result'' of
                       Inl e \<Rightarrow> Inl e
                     | Inr r \<Rightarrow> getitem r ''id'')) (\<lambda>record_id.
         bind (logger INFO (MsgCreated record_id)) (\<lambda>_.
         bind (logger INFO MsgDone) (\<lambda>_.
         ret True)))
       else
         bind (lift (first_error create_result)) (\<lambda>error.
         bind (logger ERROR (MsgCreateFailed error)) (\<lambda>_.
         bind (logger ERROR MsgFailed) (\<lambda>_.
         ret False))))))"

text \<open>Lines 315--344, with \<^verbatim>\<open>record = records[0]\<close>.\<close>

definition sync_record :: "config \<Rightarrow> env \<Rightarrow> string \<Rightarrow> json \<Rightarrow> bool prog" where
  "sync_record cfg env current_ip record =
     bind (lift (getitem record ''id'')) (\<lambda>record_id.
     bind (lift (getitem record ''content'')) (\<lambda>existing_ip.
       if existing_ip = JStr current_ip then
         bind (logger INFO MsgUnchanged) (\<lambda>_.
         bind (logger INFO MsgDone) (\<lambda>_.
         ret True))
       else
         bind (logger INFO (MsgChanged existing_ip current_ip)) (\<lambda>_.
         bind (cf_api_request cfg env ''PUT'' (DnsRecord record_id)
                 (Some (record_data cfg current_ip))) (\<lambda>update_result.
         bind (lift (get_success update_result)) (\<lambda>success.
           if success then
             bind (logger INFO (MsgUpdated (RECORD_NAME cfg) current_ip)) (\<lambda>_.
             bind (logger INFO MsgDone) (\<lambda>_.
             ret True))
           else
             bind (lift (first_error update_result)) (\<lambda>error.
             bind (logger ERROR (MsgUpdateFailed error)) (\<lambda>_.
             bind (logger ERROR MsgFailed) (\<lambda>_.
             ret False))))))))"

text \<open>Lines 311--344, what follows when \<^verbatim>\<open>records\<close> is true.\<close>

definition update_record :: "config \<Rightarrow> env \<Rightarrow> string \<Rightarrow> json \<Rightarrow> bool prog" where
  "update_record cfg env current_ip records =
     bind (lift (len records)) (\<lambda>n.
     bind (if n > 1 then logger WARNING (MsgMultiple n) else ret ()) (\<lambda>_.
     bind (lift (index0 records)) (\<lambda>record.
     sync_record cfg env current_ip record)))"

text \<open>Lines 271--272.\<close>

definition resolution_failed :: "bool prog" where
  "resolution_failed =
     bind (logger ERROR MsgFailed) (\<lambda>_.
     ret False)"

text \<open>Lines 274--344, once \<^verbatim>\<open>current_ip\<close> is known.\<close>

definition update_with_ip :: "config \<Rightarrow> env \<Rightarrow> string \<Rightarrow> bool prog" where
  "update_with_ip cfg env current_ip =
     bind (cf_api_request cfg env ''GET''
             (DnsRecordsQuery (RECORD_NAME cfg) (RECORD_TYPE cfg)) None) (\<lambda>result.
     bind (lift (get_success result)) (\<lambda>success.
       if \<not> success then
         bind (lift (first_error result)) (\<lambda>error.
         bind (logger ERROR (MsgApiError error)) (\<lambda>_.
         bind (logger ERROR MsgFailed) (\<lambda>_.
         ret False)))
       else
         bind (lift (get_default result ''result'' (JArr []))) (\<lambda>records.
           if \<not> truthy records then create_record cfg env current_ip
           else update_record cfg env current_ip records)))"

text \<open>\<^verbatim>\<open>if not current_ip\<close>: \<^verbatim>\<open>None\<close> and the empty string are false.\<close>

definition update_dns :: "config \<Rightarrow> env \<Rightarrow> bool prog" where
  "update_dns cfg env =
     bind (logger INFO (MsgStart (RECORD_NAME cfg))) (\<lambda>_.
     bind (get_public_ip cfg env) (\<lambda>current_ip.
       case current_ip of
         None \<Rightarrow> resolution_failed
       | Some ip \<Rightarrow>
           if ip = [] then resolution_failed
           else update_with_ip cfg env ip))"

section \<open>The process: line 67 and the \<^verbatim>\<open>__main__\<close> block (lines 346--372)\<close>







text \<open>One invocation after another, each against the world as it answers then.\<close>

fun run_many :: "config \<Rightarrow> env list \<Rightarrow> (exn + bool) list \<times> event list" where
  "run_many cfg [] = ([], [])"
| "run_many cfg (env # envs) =
     (case update_dns cfg env of
        (r, t) \<Rightarrow> (case run_many cfg envs of (rs, ts) \<Rightarrow> (r # rs, t @ ts)))"

section \<open>Reading a trace\<close>

fun calls_of :: "event list \<Rightarrow> request list" where
  "calls_of [] = []"
| "calls_of (Call r # t) = r # calls_of t"
| "calls_of (Log lv m # t) = calls_of t"

fun logs_of :: "event list \<Rightarrow> (level \<times> message) list" where
  "logs_of [] = []"
| "logs_of (Call r # t) = logs_of t"
| "logs_of (Log lv m # t) = (lv, m) # logs_of t"

text \<open>A write is any request that is not a \<^verbatim>\<open>GET\<close>; a provider call is any request to the
  DNS provider's API.\<close>

definition is_write :: "request \<Rightarrow> bool" where
  "is_write r = (meth r \<noteq> ''GET'')"

definition is_provider_call :: "request \<Rightarrow> bool" where
  "is_provider_call r = (case target r of ApiUrl z ep \<Rightarrow> True | ServiceUrl s \<Rightarrow> False)"

definition write_calls :: "event list \<Rightarrow> request list" where
  "write_calls t = filter is_write (calls_of t)"

definition provider_calls :: "event list \<Rightarrow> request list" where
  "provider_calls t = filter is_provider_call (calls_of t)"

text \<open>The three requests the update sends to the provider.\<close>

definition list_request :: "config \<Rightarrow> request" where
  "list_request cfg =
     requests_get (api_url cfg (DnsRecordsQuery (RECORD_NAME cfg) (RECORD_TYPE cfg)))
       (api_headers cfg) None"

definition create_request :: "config \<Rightarrow> string \<Rightarrow> request" where
  "create_request cfg ip =
     requests_post (api_url cfg DnsRecords) (api_headers cfg) (Some (record_data cfg ip))"

definition update_request :: "config \<Rightarrow> json \<Rightarrow> string \<Rightarrow> request" where
  "update_request cfg record_id ip =
     requests_put (api_url cfg (DnsRecord record_id)) (api_headers cfg)
       (Some (record_data cfg ip))"

section \<open>The conditions the properties speak about\<close>

text \<open>What one service contributes: \<open>accepted\<close> is the trimmed body of a response that
  passes \<^verbatim>\<open>raise_for_status()\<close> and is not empty once trimmed; \<open>interrupted\<close> is a
  \<^verbatim>\<open>KeyboardInterrupt\<close> during the request, which \<^verbatim>\<open>except Exception\<close> does not catch.\<close>

definition accepted :: "env \<Rightarrow> string \<Rightarrow> string option" where
  "accepted env s =
     (case env (service_request s) of
        Raise e \<Rightarrow> None
      | Return r \<Rightarrow>
          if http_error r = None \<and> strip (body_text r) \<noteq> [] then Some (strip (body_text r))
          else None)"

definition interrupted :: "env \<Rightarrow> string \<Rightarrow> bool" where
  "interrupted env s =
     (case env (service_request s) of Raise e \<Rightarrow> \<not> is_Exception e | Return r \<Rightarrow> False)"

text \<open>The resolver as section 4.2 of the specification words it: the answer of the first
  service, in list order, that is accepted; and the services it has to ask for that.\<close>

definition resolve :: "env \<Rightarrow> string list \<Rightarrow> string option" where
  "resolve env urls =
     (case find (\<lambda>s. accepted env s \<noteq> None) urls of
        None \<Rightarrow> None
      | Some s \<Rightarrow> accepted env s)"

definition tried :: "env \<Rightarrow> string list \<Rightarrow> string list" where
  "tried env urls =
     takeWhile (\<lambda>s. accepted env s = None) urls
       @ take 1 (dropWhile (\<lambda>s. accepted env s = None) urls)"

text \<open>The IP a run resolves, if it resolves one.\<close>

definition resolved_ip :: "config \<Rightarrow> env \<Rightarrow> string option" where
  "resolved_ip cfg env =
     (case fst (get_public_ip cfg env) of
        Inl e \<Rightarrow> None
      | Inr None \<Rightarrow> None
      | Inr (Some ip) \<Rightarrow> Some ip)"

text \<open>The provider reports success for a request: the request returns a response that
  passes \<^verbatim>\<open>raise_for_status()\<close> and decodes to an object whose \<^verbatim>\<open>success\<close> is true. The value
  is that object.\<close>

definition provider_success :: "env \<Rightarrow> request \<Rightarrow> (string \<times> json) list option" where
  "provider_success env req =
     (case env req of
        Raise e \<Rightarrow> None
      | Return r \<Rightarrow>
          (case http_error r of
             Some msg \<Rightarrow> None
           | None \<Rightarrow>
               (case json_body r of
                  Inl msg \<Rightarrow> None
                | Inr j \<Rightarrow>
                    (case j of
                       JObj kvs \<Rightarrow>
                         (case map_of kvs ''success'' of
                            None \<Rightarrow> None
                          | Some v \<Rightarrow> if truthy v then Some kvs else None)
                     | _ \<Rightarrow> None))))"

text \<open>The records a successful list call returns.\<close>

definition listed_records :: "config \<Rightarrow> env \<Rightarrow> json list option" where
  "listed_records cfg env =
     (case provider_success env (list_request cfg) of
        None \<Rightarrow> None
      | Some kvs \<Rightarrow> (case map_of kvs ''result'' of Some (JArr rs) \<Rightarrow> Some rs | _ \<Rightarrow> None))"

fun record_field :: "json \<Rightarrow> string \<Rightarrow> json option" where
  "record_field (JObj kvs) k = map_of kvs k"
| "record_field _ k = None"

text \<open>A run in which the resolved IP equals the content of the first record listed (a
  remote record has an id).\<close>

definition ip_unchanged :: "config \<Rightarrow> env \<Rightarrow> bool" where
  "ip_unchanged cfg env =
     (case resolved_ip cfg env of
        None \<Rightarrow> False
      | Some ip \<Rightarrow>
          (case listed_records cfg env of
             None \<Rightarrow> False
           | Some [] \<Rightarrow> False
           | Some (r # rs) \<Rightarrow>
               record_field r ''id'' \<noteq> None \<and> record_field r ''content'' = Some (JStr ip)))"

text \<open>What \<^verbatim>\<open>cf_api_request\<close> makes of the reply to the request it sent.\<close>

definition reported :: "string \<Rightarrow> response option \<Rightarrow> string" where
  "reported msg resp =
     (case error_detail resp of Some errors \<Rightarrow> msg @ '' | '' @ errors | None \<Rightarrow> msg)"

definition api_failed :: "request \<Rightarrow> string \<Rightarrow> json prog" where
  "api_failed req error_msg =
     (Inr (failure error_msg), [Call req, Log ERROR (MsgApiRequestFailed error_msg)])"

definition api_outcome :: "request \<Rightarrow> reply \<Rightarrow> json prog" where
  "api_outcome req rep =
     (case rep of
        Raise e \<Rightarrow>
          (case e of
             RequestException msg resp \<Rightarrow> api_failed req (reported msg resp)
           | _ \<Rightarrow> (Inl e, [Call req]))
      | Return r \<Rightarrow>
          (case http_error r of
             Some msg \<Rightarrow> api_failed req (reported msg (Some r))
           | None \<Rightarrow>
               (case json_body r of
                  Inl msg \<Rightarrow> api_failed req (reported msg None)
                | Inr j \<Rightarrow> (Inr j, [Call req]))))"

text \<open>The provider reports failure for a request: the request raises a
  \<^verbatim>\<open>RequestException\<close> (a transport error, an error status, a body that does not decode),
  or the response decodes to an object whose \<^verbatim>\<open>success\<close> is false or missing and whose
  \<^verbatim>\<open>errors\<close>, when present, start with an object. The value is the error reported.\<close>

definition provider_failure :: "env \<Rightarrow> request \<Rightarrow> err option" where
  "provider_failure env req =
     (case env req of
        Raise e \<Rightarrow>
          (case e of
             RequestException msg resp \<Rightarrow> Some (Message (JStr (reported msg resp)))
           | _ \<Rightarrow> None)
      | Return r \<Rightarrow>
          (case http_error r of
             Some msg \<Rightarrow> Some (Message (JStr (reported msg (Some r))))
           | None \<Rightarrow>
               (case json_body r of
                  Inl msg \<Rightarrow> Some (Message (JStr (reported msg None)))
                | Inr j \<Rightarrow>
                    (case get_success j of
                       Inr False \<Rightarrow> (case first_error j of Inl x \<Rightarrow> None | Inr e \<Rightarrow> Some e)
                     | _ \<Rightarrow> None))))"

text \<open>The warning of lines 311--312.\<close>

definition multiple_warning :: "json list \<Rightarrow> event list" where
  "multiple_warning rs = (if length rs > 1 then [Log WARNING (MsgMultiple (length rs))] else [])"

text \<open>A service fails: the request raises an \<^verbatim>\<open>Exception\<close> (timeout, connection
  error), the status is an error, or the trimmed body is empty.\<close>

definition service_failed :: "env \<Rightarrow> string \<Rightarrow> bool" where
  "service_failed env s =
     (case env (service_request s) of
        Raise e \<Rightarrow> is_Exception e
      | Return r \<Rightarrow> http_error r \<noteq> None \<or> strip (body_text r) = [])"

section \<open>Sample worlds\<close>

definition cfg_a :: config where
  "cfg_a = \<lparr>API_TOKEN = ''token'', ZONE_ID = ''zone'', RECORD_NAME = ''ddns.example.com'',
            RECORD_TYPE = ''A'', TTL = 60\<rparr>"

definition ok_text :: "string \<Rightarrow> reply" where
  "ok_text body = Return \<lparr>http_error = None, body_text = body, json_body = Inl ''no JSON''\<rparr>"

definition ok_json :: "json \<Rightarrow> reply" where
  "ok_json j = Return \<lparr>http_error = None, body_text = [], json_body = Inr j\<rparr>"

definition bad_status :: "string \<Rightarrow> json \<Rightarrow> reply" where
  "bad_status msg j = Return \<lparr>http_error = Some msg, body_text = [], json_body = Inr j\<rparr>"

definition timed_out :: reply where
  "timed_out = Raise (RequestException ''timed out'' None)"

text \<open>A world that answers the IP services by \<open>ip\<close>, the list call by \<open>ls\<close> and a create
  or update call by \<open>wr\<close>.\<close>

definition world :: "(string \<Rightarrow> reply) \<Rightarrow> reply \<Rightarrow> reply \<Rightarrow> env" where
  "world ip ls wr r =
     (case target r of
        ServiceUrl s \<Rightarrow> ip s
      | ApiUrl z ep \<Rightarrow> if meth r = ''GET'' then ls else wr)"

text \<open>The first service is down, the others answer with the address and a newline.\<close>

definition second_answers :: "string \<Rightarrow> string \<Rightarrow> reply" where
  "second_answers ip s =
     (if s = ''https://api.ipify.org'' then timed_out else ok_text (ip @ [CHR 0x0A]))"

definition a_services :: "string list" where
  "a_services = [''https://api.ipify.org'', ''https://ipv4.icanhazip.com'',
                 ''https://checkip.amazonaws.com'']"

definition one_record :: "string \<Rightarrow> string \<Rightarrow> json" where
  "one_record rid content = JObj [(''id'', JStr rid), (''content'', JStr content)]"

definition listing :: "json list \<Rightarrow> reply" where
  "listing rs = ok_json (JObj [(''success'', JBool True), (''result'', JArr rs)])"

definition same_ip_world :: env where
  "same_ip_world =
     world (second_answers ''203.0.113.5'') (listing [one_record ''r1'' ''203.0.113.5'']) timed_out"

text \<open>The address resolved is new and the provider lists no record: the create call
  succeeds and names the new record, or fails with a message.\<close>

definition no_record_world :: "reply \<Rightarrow> env" where
  "no_record_world wr = world (second_answers ''203.0.113.5'') (listing []) wr"

definition created_reply :: reply where
  "created_reply =
     ok_json (JObj [(''success'', JBool True), (''result'', one_record ''r9'' ''203.0.113.5'')])"

definition refused_reply :: reply where
  "refused_reply =
     bad_status ''403 Client Error''
       (JObj [(''success'', JBool False),
              (''errors'', JArr [JObj [(''message'', JStr ''Authentication error'')],
                                 JObj [(''message'', JStr ''Forbidden'')]])])"

text \<open>Answers to the create call that report success without the new record, and failure
  with an empty list of errors.\<close>

definition bare_success_reply :: reply where
  "bare_success_reply = ok_json (JObj [(''success'', JBool True)])"

definition empty_errors_reply :: reply where
  "empty_errors_reply =
     ok_json (JObj [(''success'', JBool False), (''errors'', JArr [])])"

text \<open>The provider lists records whose first one holds an older address.\<close>

definition old_record_world :: "json list \<Rightarrow> reply \<Rightarrow> env" where
  "old_record_world others wr =
     world (second_answers ''203.0.113.9'')
       (listing (one_record ''r1'' ''203.0.113.1'' # others)) wr"

definition updated_reply :: reply where
  "updated_reply =
     ok_json (JObj [(''success'', JBool True), (''result'', one_record ''r1'' ''203.0.113.9'')])"

text \<open>A list answer that reports success and has no \<^verbatim>\<open>result\<close>.\<close>

definition bare_success_world :: "reply \<Rightarrow> env" where
  "bare_success_world wr =
     world (second_answers ''203.0.113.5'') (ok_json (JObj [(''success'', JBool True)])) wr"

text \<open>Two records are listed; and the same world listing the first of them alone.\<close>

definition two_records_world :: env where
  "two_records_world =
     old_record_world [one_record ''r2'' ''203.0.113.2''] updated_reply"

definition first_alone_world :: env where
  "first_alone_world =
     two_records_world (list_request cfg_a := listing [one_record ''r1'' ''203.0.113.1''])"

text \<open>Two records are listed and the first holds the address the run resolves.\<close>

definition two_records_same_world :: env where
  "two_records_same_world =
     world (second_answers ''203.0.113.5'')
       (listing [one_record ''r1'' ''203.0.113.5'', one_record ''r2'' ''203.0.113.2''])
       timed_out"

text \<open>A field of the JSON body a request carries.\<close>

definition body_field :: "request \<Rightarrow> string \<Rightarrow> json option" where
  "body_field req k = (case payload req of None \<Rightarrow> None | Some body \<Rightarrow> record_field body k)"

text \<open>A write leaves field \<open>k\<close> of a record as it is when the body it sends holds the
  value the record has.\<close>

definition keeps_field :: "string \<Rightarrow> json \<Rightarrow> request \<Rightarrow> bool" where
  "keeps_field k record req = (body_field req k = record_field record k)"

text \<open>The record listed is proxied and holds an older address.\<close>

definition proxied_record :: json where
  "proxied_record =
     JObj [(''id'', JStr ''r1''), (''type'', JStr ''A''), (''name'', JStr ''ddns.example.com''),
           (''content'', JStr ''203.0.113.1''), (''ttl'', JNum 1), (''proxied'', JBool True)]"

definition proxied_world :: env where
  "proxied_world =
     world (second_answers ''203.0.113.9'') (listing [proxied_record]) updated_reply"

text \<open>A refusal sent with a success status.\<close>

definition soft_refusal :: reply where
  "soft_refusal =
     ok_json (JObj [(''success'', JBool False),
                    (''errors'', JArr [JObj [(''message'', JStr ''Authentication error'')],
                                       JObj [(''message'', JStr ''Forbidden'')]])])"

text \<open>The error a run reports: the value interpolated into the error lines of
  \<^verbatim>\<open>update_dns\<close> (lines 280, 306 and 342).\<close>

fun error_of :: "event \<Rightarrow> err list" where
  "error_of (Log lv (MsgApiError e)) = [e]"
| "error_of (Log lv (MsgCreateFailed e)) = [e]"
| "error_of (Log lv (MsgUpdateFailed e)) = [e]"
| "error_of _ = []"

definition run_errors :: "event list \<Rightarrow> err list" where
  "run_errors t = concat (map error_of t)"



section \<open>Lemmas about the model\<close>

lemma calls_of_append: "calls_of (t @ u) = calls_of t @ calls_of u"
  by (induction t rule: calls_of.induct) simp_all

lemma logs_of_append: "logs_of (t @ u) = logs_of t @ logs_of u"
  by (induction t rule: logs_of.induct) simp_all

lemma bind_ret: "bind (ret x) f = f x"
  by (simp add: bind_def ret_def split: prod.splits)

lemma bind_logger: "bind (logger lv m) f = (fst (f ()), Log lv m # snd (f ()))"
  by (simp add: bind_def logger_def split: prod.splits)

lemma bind_lift_Inr: "bind (lift (Inr x)) f = f x"
  by (simp add: bind_def lift_def split: prod.splits)

lemma bind_pair_Inr: "bind (Inr x, t) f = (fst (f x), t @ snd (f x))"
  by (simp add: bind_def split: prod.splits)

lemma try_service_cases:
  "try_service env s =
     (case env (service_request s) of
        Raise e \<Rightarrow> (Inl e, [Call (service_request s)])
      | Return r \<Rightarrow>
          (case http_error r of
             Some msg \<Rightarrow> (Inl (RequestException msg (Some r)), [Call (service_request s)])
           | None \<Rightarrow>
               if strip (body_text r) \<noteq> []
               then (Inr (Some (strip (body_text r))),
                     [Call (service_request s), Log INFO (MsgGotIp (strip (body_text r)))])
               else (Inr None, [Call (service_request s)])))"
  by (simp add: try_service_def send_def raise_for_status_def bind_def ret_def raise_def
      logger_def Let_def split: reply.splits option.splits)

lemma try_services_Cons:
  "try_services env (s # rest) =
     (case env (service_request s) of
        Raise e \<Rightarrow>
          if is_Exception e
          then (fst (try_services env rest),
                Call (service_request s) # Log DEBUG (MsgServiceFailed s e) # snd (try_services env rest))
          else (Inl e, [Call (service_request s)])
      | Return r \<Rightarrow>
          (case http_error r of
             Some msg \<Rightarrow>
               (fst (try_services env rest),
                Call (service_request s)
                  # Log DEBUG (MsgServiceFailed s (RequestException msg (Some r)))
                  # snd (try_services env rest))
           | None \<Rightarrow>
               if strip (body_text r) \<noteq> []
               then (Inr (Some (strip (body_text r))),
                     [Call (service_request s), Log INFO (MsgGotIp (strip (body_text r)))])
               else (fst (try_services env rest),
                     Call (service_request s) # snd (try_services env rest))))"
  by (simp add: try_service_cases catch_def bind_def ret_def logger_def
      split: reply.splits option.splits prod.splits sum.splits)

lemma try_services_spec:
  "\<forall>s\<in>set urls. \<not> interrupted env s \<Longrightarrow>
   fst (try_services env urls) = Inr (resolve env urls) \<and>
   calls_of (snd (try_services env urls)) = map service_request (tried env urls)"
proof (induction urls)
  case Nil
  show ?case by (simp add: bind_def logger_def ret_def resolve_def tried_def)
next
  case (Cons s rest)
  then have ih: "fst (try_services env rest) = Inr (resolve env rest)"
    "calls_of (snd (try_services env rest)) = map service_request (tried env rest)"
    and ni: "\<not> interrupted env s"
    by simp_all
  have acc_None: "accepted env s = None \<Longrightarrow> resolve env (s # rest) = resolve env rest"
    "accepted env s = None \<Longrightarrow> tried env (s # rest) = s # tried env rest"
    by (simp_all add: resolve_def tried_def)
  have acc_Some: "\<And>ip. accepted env s = Some ip \<Longrightarrow> resolve env (s # rest) = Some ip"
    "\<And>ip. accepted env s = Some ip \<Longrightarrow> tried env (s # rest) = [s]"
    by (simp_all add: resolve_def tried_def)
  show ?case
  proof (cases "env (service_request s)")
    case (Raise e)
    then have "accepted env s = None" and "is_Exception e"
      using ni by (simp_all add: accepted_def interrupted_def)
    with Raise ih show ?thesis
      by (simp add: try_services_Cons acc_None del: try_services.simps)
  next
    case (Return r)
    show ?thesis
    proof (cases "http_error r = None \<and> strip (body_text r) \<noteq> []")
      case True
      then have "accepted env s = Some (strip (body_text r))"
        using Return by (simp add: accepted_def)
      with Return True show ?thesis
        by (simp add: try_services_Cons acc_Some del: try_services.simps)
    next
      case False
      then have "accepted env s = None"
        using Return by (simp add: accepted_def)
      with Return False ih show ?thesis
        by (auto simp add: try_services_Cons acc_None simp del: try_services.simps
            split: option.splits)
    qed
  qed
qed

lemma cf_api_request_GET:
  "cf_api_request cfg env ''GET'' ep d =
     api_outcome (requests_get (api_url cfg ep) (api_headers cfg) None)
       (env (requests_get (api_url cfg ep) (api_headers cfg) None))"
  by (simp add: cf_api_request_def api_outcome_def api_failed_def reported_def send_def
      raise_for_status_def response_json_def catch_def bind_def ret_def raise_def logger_def
      Let_def split: reply.splits option.splits sum.splits exn.splits)

lemma cf_api_request_POST:
  "cf_api_request cfg env ''POST'' ep d =
     api_outcome (requests_post (api_url cfg ep) (api_headers cfg) d)
       (env (requests_post (api_url cfg ep) (api_headers cfg) d))"
  by (simp add: cf_api_request_def api_outcome_def api_failed_def reported_def send_def
      raise_for_status_def response_json_def catch_def bind_def ret_def raise_def logger_def
      Let_def split: reply.splits option.splits sum.splits exn.splits)

lemma cf_api_request_PUT:
  "cf_api_request cfg env ''PUT'' ep d =
     api_outcome (requests_put (api_url cfg ep) (api_headers cfg) d)
       (env (requests_put (api_url cfg ep) (api_headers cfg) d))"
  by (simp add: cf_api_request_def api_outcome_def api_failed_def reported_def send_def
      raise_for_status_def response_json_def catch_def bind_def ret_def raise_def logger_def
      Let_def split: reply.splits option.splits sum.splits exn.splits)

lemma calls_of_api_outcome: "calls_of (snd (api_outcome req rep)) = [req]"
  by (simp add: api_outcome_def api_failed_def split: reply.splits exn.splits option.splits sum.splits)

lemma try_services_nonempty: "fst (try_services env urls) = Inr (Some ip) \<Longrightarrow> ip \<noteq> []"
proof (induction urls)
  case Nil
  then show ?case by (simp add: bind_def logger_def ret_def)
next
  case (Cons s rest)
  then show ?case
    by (auto simp add: try_services_Cons simp del: try_services.simps
        split: reply.splits option.splits if_splits)
qed

lemma resolved_ip_nonempty: "resolved_ip cfg env = Some ip \<Longrightarrow> ip \<noteq> []"
  by (auto simp: resolved_ip_def get_public_ip_def raise_def dest: try_services_nonempty
      split: sum.splits option.splits)

lemma update_dns_resolved:
  assumes "resolved_ip cfg env = Some ip"
  shows "update_dns cfg env =
           (fst (update_with_ip cfg env ip),
            Log INFO (MsgStart (RECORD_NAME cfg)) # snd (get_public_ip cfg env)
              @ snd (update_with_ip cfg env ip))"
proof -
  have ne: "ip \<noteq> []" using assms by (rule resolved_ip_nonempty)
  obtain t where g: "get_public_ip cfg env = (Inr (Some ip), t)"
    using assms by (cases "get_public_ip cfg env") (auto simp: resolved_ip_def split: sum.splits option.splits)
  show ?thesis
    by (simp add: update_dns_def g ne bind_logger bind_pair_Inr)
qed

lemma update_dns_unresolved:
  assumes "fst (get_public_ip cfg env) = Inr None"
  shows "update_dns cfg env =
           (Inr False,
            Log INFO (MsgStart (RECORD_NAME cfg)) # snd (get_public_ip cfg env)
              @ [Log ERROR MsgFailed])"
proof -
  obtain t where g: "get_public_ip cfg env = (Inr None, t)"
    using assms by (cases "get_public_ip cfg env") auto
  show ?thesis
    by (simp add: update_dns_def g bind_logger bind_pair_Inr resolution_failed_def ret_def)
qed

lemma provider_success_outcome:
  "provider_success env req = Some kvs \<Longrightarrow> api_outcome req (env req) = (Inr (JObj kvs), [Call req])"
  by (auto simp: provider_success_def api_outcome_def
      split: reply.splits option.splits sum.splits json.splits if_splits)

lemma provider_success_get_success:
  "provider_success env req = Some kvs \<Longrightarrow> get_success (JObj kvs) = Inr True"
  by (auto simp: provider_success_def get_success_def
      split: reply.splits option.splits sum.splits json.splits if_splits)

lemma get_success_failure: "get_success (failure m) = Inr False"
  by (simp add: get_success_def failure_def)

lemma first_error_failure: "first_error (failure m) = Inr (Message (JStr m))"
  by (simp add: first_error_def failure_def get_default_def)

lemma fst_api_failed: "fst (api_failed req m) = Inr (failure m)"
  by (simp add: api_failed_def)

lemma provider_failure_outcome:
  assumes "provider_failure env req = Some e"
  shows "\<exists>j. fst (api_outcome req (env req)) = Inr j \<and> get_success j = Inr False \<and> first_error j = Inr e"
proof (cases "env req")
  case (Raise x)
  with assms obtain msg resp where x: "x = RequestException msg resp"
    and e: "e = Message (JStr (reported msg resp))"
    by (auto simp: provider_failure_def split: exn.splits)
  show ?thesis
    by (simp add: Raise x e api_outcome_def fst_api_failed get_success_failure first_error_failure)
next
  case (Return r)
  show ?thesis
  proof (cases "http_error r")
    case (Some msg)
    with assms Return have e: "e = Message (JStr (reported msg (Some r)))"
      by (simp add: provider_failure_def)
    show ?thesis
      by (simp add: Return Some e api_outcome_def fst_api_failed get_success_failure first_error_failure)
  next
    case None
    show ?thesis
    proof (cases "json_body r")
      case (Inl msg)
      with assms Return None have e: "e = Message (JStr (reported msg None))"
        by (simp add: provider_failure_def)
      show ?thesis
        by (simp add: Return None Inl e api_outcome_def fst_api_failed get_success_failure first_error_failure)
    next
      case (Inr j)
      with assms Return None have "get_success j = Inr False" "first_error j = Inr e"
        by (auto simp: provider_failure_def split: sum.splits bool.splits)
      then show ?thesis
        by (simp add: Return None Inr api_outcome_def)
    qed
  qed
qed

lemma update_with_ip_listed:
  assumes "provider_success env (list_request cfg) = Some kvs"
  shows "update_with_ip cfg env ip =
           (let records = (case map_of kvs ''result'' of None \<Rightarrow> JArr [] | Some v \<Rightarrow> v);
                k = (if \<not> truthy records then create_record cfg env ip
                     else update_record cfg env ip records)
            in (fst k, Call (list_request cfg) # snd k))"
  using provider_success_outcome [of env "list_request cfg" kvs, OF assms] provider_success_get_success [of env "list_request cfg" kvs, OF assms]
  by (simp add: update_with_ip_def cf_api_request_GET list_request_def [symmetric]
      bind_pair_Inr bind_lift_Inr get_default_def Let_def split: option.splits)

lemma calls_bind:
  "calls_of (snd (bind m f)) =
     calls_of (snd m) @ (case fst m of Inl e \<Rightarrow> [] | Inr x \<Rightarrow> calls_of (snd (f x)))"
  by (cases m) (auto simp: bind_def calls_of_append split: sum.splits prod.splits)

lemma calls_simple:
  "calls_of (snd (logger lv msg)) = []"
  "calls_of (snd (lift r)) = []"
  "calls_of (snd (ret x)) = []"
  "calls_of (snd (raise e)) = []"
  by (simp_all add: logger_def lift_def ret_def raise_def)

lemma fst_simple:
  "fst (logger lv msg) = Inr ()"
  "fst (lift r) = r"
  "fst (ret x) = Inr x"
  "fst (raise e) = Inl e"
  by (simp_all add: logger_def lift_def ret_def raise_def)

lemma create_record_calls: "calls_of (snd (create_record cfg env ip)) = [create_request cfg ip]"
  by (simp add: create_record_def cf_api_request_POST create_request_def [symmetric]
      calls_bind calls_simple fst_simple calls_of_api_outcome split: sum.splits)

lemma sync_record_calls:
  "calls_of (snd (sync_record cfg env ip r)) = [] \<or>
   (\<exists>rid. calls_of (snd (sync_record cfg env ip r)) = [update_request cfg rid ip])"
  by (auto simp add: sync_record_def cf_api_request_PUT update_request_def [symmetric]
      calls_bind calls_simple fst_simple calls_of_api_outcome split: sum.splits)

lemma update_record_calls:
  "calls_of (snd (update_record cfg env ip records)) = [] \<or>
   (\<exists>rid. calls_of (snd (update_record cfg env ip records)) = [update_request cfg rid ip])"
  using sync_record_calls [of cfg env ip]
  by (auto simp add: update_record_def calls_bind calls_simple fst_simple split: sum.splits)

lemma create_record_success:
  assumes "provider_success env (create_request cfg ip) = Some kvs"
    and "map_of kvs ''result'' = Some res" and "record_field res ''id'' = Some rid"
  shows "create_record cfg env ip =
           (Inr True,
            [Log WARNING (MsgCreating (RECORD_NAME cfg)), Call (create_request cfg ip),
             Log INFO (MsgCreated rid), Log INFO MsgDone])"
proof -
  have res: "getitem res ''id'' = Inr rid"
    using assms(3) by (cases res) simp_all
  show ?thesis
    using provider_success_outcome [of env "create_request cfg ip" kvs, OF assms(1)]
      provider_success_get_success [of env "create_request cfg ip" kvs, OF assms(1)]
    by (simp add: create_record_def cf_api_request_POST create_request_def [symmetric]
        bind_logger bind_pair_Inr bind_lift_Inr assms(2) res ret_def)
qed

lemma create_record_failure:
  assumes "provider_failure env (create_request cfg ip) = Some e"
  shows "create_record cfg env ip =
           (Inr False,
            Log WARNING (MsgCreating (RECORD_NAME cfg))
              # snd (api_outcome (create_request cfg ip) (env (create_request cfg ip)))
              @ [Log ERROR (MsgCreateFailed e), Log ERROR MsgFailed])"
proof -
  obtain j where j: "fst (api_outcome (create_request cfg ip) (env (create_request cfg ip))) = Inr j"
    "get_success j = Inr False" "first_error j = Inr e"
    using provider_failure_outcome [OF assms] by blast
  then obtain t where t: "api_outcome (create_request cfg ip) (env (create_request cfg ip)) = (Inr j, t)"
    by (cases "api_outcome (create_request cfg ip) (env (create_request cfg ip))") simp
  show ?thesis
    by (simp add: create_record_def cf_api_request_POST create_request_def [symmetric] t j
        bind_logger bind_pair_Inr bind_lift_Inr ret_def)
qed

lemma record_field_getitem: "record_field r k = Some v \<Longrightarrow> getitem r k = Inr v"
  by (cases r) simp_all

lemma update_record_first:
  "update_record cfg env ip (JArr (r # rs)) =
     (fst (sync_record cfg env ip r), multiple_warning (r # rs) @ snd (sync_record cfg env ip r))"
  by (simp add: update_record_def multiple_warning_def bind_lift_Inr bind_logger bind_ret)

lemma sync_record_unchanged:
  assumes "record_field r ''id'' = Some rid" and "record_field r ''content'' = Some (JStr ip)"
  shows "sync_record cfg env ip r = (Inr True, [Log INFO MsgUnchanged, Log INFO MsgDone])"
  by (simp add: sync_record_def record_field_getitem [OF assms(1)]
      record_field_getitem [OF assms(2)] bind_lift_Inr bind_logger ret_def)

lemma sync_record_success:
  assumes "record_field r ''id'' = Some rid" and "record_field r ''content'' = Some c"
    and "c \<noteq> JStr ip"
    and "provider_success env (update_request cfg rid ip) = Some kvs"
  shows "sync_record cfg env ip r =
           (Inr True,
            [Log INFO (MsgChanged c ip), Call (update_request cfg rid ip),
             Log INFO (MsgUpdated (RECORD_NAME cfg) ip), Log INFO MsgDone])"
  using provider_success_outcome [of env "update_request cfg rid ip" kvs, OF assms(4)]
    provider_success_get_success [of env "update_request cfg rid ip" kvs, OF assms(4)]
  by (simp add: sync_record_def record_field_getitem [OF assms(1)]
      record_field_getitem [OF assms(2)] assms(3) cf_api_request_PUT
      update_request_def [symmetric] bind_lift_Inr bind_logger bind_pair_Inr ret_def)

lemma sync_record_failure:
  assumes "record_field r ''id'' = Some rid" and "record_field r ''content'' = Some c"
    and "c \<noteq> JStr ip"
    and "provider_failure env (update_request cfg rid ip) = Some e"
  shows "sync_record cfg env ip r =
           (Inr False,
            Log INFO (MsgChanged c ip)
              # snd (api_outcome (update_request cfg rid ip) (env (update_request cfg rid ip)))
              @ [Log ERROR (MsgUpdateFailed e), Log ERROR MsgFailed])"
proof -
  obtain j where j: "fst (api_outcome (update_request cfg rid ip) (env (update_request cfg rid ip))) = Inr j"
    "get_success j = Inr False" "first_error j = Inr e"
    using provider_failure_outcome [OF assms(4)] by blast
  then obtain t where t: "api_outcome (update_request cfg rid ip) (env (update_request cfg rid ip)) = (Inr j, t)"
    by (cases "api_outcome (update_request cfg rid ip) (env (update_request cfg rid ip))") simp
  show ?thesis
    by (simp add: sync_record_def record_field_getitem [OF assms(1)]
        record_field_getitem [OF assms(2)] assms(3) cf_api_request_PUT
        update_request_def [symmetric] t j bind_lift_Inr bind_logger bind_pair_Inr ret_def)
qed

lemma service_failed_iff: "service_failed env s \<longleftrightarrow> accepted env s = None \<and> \<not> interrupted env s"
  by (auto simp: service_failed_def accepted_def interrupted_def split: reply.splits)

lemma resolve_None_iff: "resolve env urls = None \<longleftrightarrow> (\<forall>s\<in>set urls. accepted env s = None)"
  by (auto simp: resolve_def find_None_iff split: option.splits dest: find_Some_iff [THEN iffD1])

lemma tried_all: "\<forall>s\<in>set urls. accepted env s = None \<Longrightarrow> tried env urls = urls"
  by (simp add: tried_def takeWhile_eq_all_conv [THEN iffD2] dropWhile_eq_Nil_conv [THEN iffD2])

lemma is_provider_call_service [simp]: "\<not> is_provider_call (service_request s)"
  by (simp add: is_provider_call_def service_request_def requests_get_def)

lemma is_write_service [simp]: "\<not> is_write (service_request s)"
  by (simp add: is_write_def service_request_def requests_get_def)

section \<open>The IP resolver\<close>

text \<open>Claim C7. For a record type that has a service list, and as long as no request is
  interrupted from the keyboard, \<^verbatim>\<open>get_public_ip\<close> returns the trimmed body of the first
  service, in list order, whose response passes the status check and whose trimmed body is
  not empty. It asks the services in order and stops at that one; a service that raises,
  answers with an error status or with an empty trimmed body is passed over. It returns
  \<^verbatim>\<open>None\<close> exactly when every service of the list failed. Nothing but emptiness is tested
  on the text returned.\<close>

theorem resolver_first_accepted:
  assumes "services (RECORD_TYPE cfg) = Some urls"
    and "\<forall>s\<in>set urls. \<not> interrupted env s"
  shows "fst (get_public_ip cfg env) = Inr (resolve env urls) \<and>
         calls_of (snd (get_public_ip cfg env)) = map service_request (tried env urls) \<and>
         (fst (get_public_ip cfg env) = Inr None \<longleftrightarrow> (\<forall>s\<in>set urls. service_failed env s))"
proof -
  have 1: "fst (get_public_ip cfg env) = Inr (resolve env urls)"
    and 2: "calls_of (snd (get_public_ip cfg env)) = map service_request (tried env urls)"
    using try_services_spec [OF assms(2)] by (simp_all add: get_public_ip_def assms(1))
  have 3: "resolve env urls = None \<longleftrightarrow> (\<forall>s\<in>set urls. service_failed env s)"
    using assms(2) by (simp add: resolve_None_iff service_failed_iff)
  show ?thesis using 1 2 3 by simp
qed

theorem resolver_first_accepted_witness:
  "fst (get_public_ip cfg_a (world (second_answers ''not an address'') timed_out timed_out))
     = Inr (Some ''not an address'') \<and>
   calls_of (snd (get_public_ip cfg_a (world (second_answers ''not an address'') timed_out timed_out)))
     = [service_request ''https://api.ipify.org'', service_request ''https://ipv4.icanhazip.com'']"
proof -
  let ?env = "world (second_answers ''not an address'') timed_out timed_out"
  have h1: "services (RECORD_TYPE cfg_a) = Some a_services"
    by (simp add: cfg_a_def a_services_def services_def)
  have h2: "\<forall>s\<in>set a_services. \<not> interrupted ?env s"
    by (simp add: a_services_def interrupted_def world_def service_request_def
        requests_get_def second_answers_def timed_out_def ok_text_def)
  have a1: "accepted ?env ''https://api.ipify.org'' = None"
    by (simp add: accepted_def world_def service_request_def requests_get_def
        second_answers_def timed_out_def)
  have a2: "accepted ?env ''https://ipv4.icanhazip.com'' = Some ''not an address''"
    by (simp add: accepted_def world_def service_request_def requests_get_def
        second_answers_def ok_text_def strip_def isspace_def)
  have r: "resolve ?env a_services = Some ''not an address''"
    and t: "tried ?env a_services = [''https://api.ipify.org'', ''https://ipv4.icanhazip.com'']"
    by (simp_all add: resolve_def tried_def a_services_def a1 a2)
  note w = resolver_first_accepted [OF h1 h2]
  from w have "fst (get_public_ip cfg_a ?env) = Inr (Some ''not an address'')"
    by (simp only: r)
  moreover from w have "calls_of (snd (get_public_ip cfg_a ?env))
     = [service_request ''https://api.ipify.org'', service_request ''https://ipv4.icanhazip.com'']"
    by (simp only: t list.map)
  ultimately show ?thesis by (rule conjI)
qed

section \<open>No address, no provider call\<close>

text \<open>Claim C5. When every service of the list for the record type fails, \<^verbatim>\<open>update_dns\<close>
  returns \<^verbatim>\<open>False\<close>; after the resolver it only writes the failure line to the log, the
  requests it sent are those to the IP services, and none goes to the DNS provider.\<close>

theorem resolution_failure_no_provider_call:
  assumes "services (RECORD_TYPE cfg) = Some urls"
    and "\<forall>s\<in>set urls. service_failed env s"
  shows "fst (update_dns cfg env) = Inr False \<and>
         snd (update_dns cfg env) =
           Log INFO (MsgStart (RECORD_NAME cfg)) # snd (get_public_ip cfg env)
             @ [Log ERROR MsgFailed] \<and>
         calls_of (snd (update_dns cfg env)) = map service_request urls \<and>
         provider_calls (snd (update_dns cfg env)) = []"
proof -
  from assms(2) have acc: "\<forall>s\<in>set urls. accepted env s = None"
    and ni: "\<forall>s\<in>set urls. \<not> interrupted env s"
    by (simp_all add: service_failed_iff)
  have r: "fst (get_public_ip cfg env) = Inr None"
    and c: "calls_of (snd (get_public_ip cfg env)) = map service_request urls"
    using try_services_spec [OF ni] acc
    by (simp_all add: get_public_ip_def assms(1) resolve_None_iff [THEN iffD2] tried_all)
  have u: "update_dns cfg env =
           (Inr False,
            Log INFO (MsgStart (RECORD_NAME cfg)) # snd (get_public_ip cfg env)
              @ [Log ERROR MsgFailed])"
    using r by (rule update_dns_unresolved)
  have "calls_of (snd (update_dns cfg env)) = map service_request urls"
    by (simp add: u calls_of_append c)
  moreover have "filter is_provider_call (map service_request urls) = []"
    by (induction urls) simp_all
  ultimately show ?thesis using u by (simp add: provider_calls_def)
qed

theorem resolution_failure_no_provider_call_witness:
  "fst (update_dns cfg_a (world (\<lambda>s. timed_out) timed_out timed_out)) = Inr False \<and>
   calls_of (snd (update_dns cfg_a (world (\<lambda>s. timed_out) timed_out timed_out)))
     = map service_request a_services \<and>
   provider_calls (snd (update_dns cfg_a (world (\<lambda>s. timed_out) timed_out timed_out))) = []"
proof -
  have h1: "services (RECORD_TYPE cfg_a) = Some a_services"
    by (simp add: cfg_a_def a_services_def services_def)
  have h2: "\<forall>s\<in>set a_services. service_failed (world (\<lambda>s. timed_out) timed_out timed_out) s"
    by (simp add: service_failed_def world_def service_request_def requests_get_def timed_out_def)
  from resolution_failure_no_provider_call [OF h1 h2] show ?thesis
    by blast
qed

lemma try_services_calls:
  "set (calls_of (snd (try_services env urls))) \<subseteq> service_request ` set urls"
proof (induction urls)
  case Nil
  show ?case by (simp add: bind_def logger_def ret_def)
next
  case (Cons s rest)
  then show ?case
    by (auto simp add: try_services_Cons simp del: try_services.simps
        split: reply.splits option.splits)
qed

lemma get_public_ip_calls:
  "r \<in> set (calls_of (snd (get_public_ip cfg env))) \<Longrightarrow> \<exists>s. r = service_request s"
  using try_services_calls [of env]
  by (auto simp: get_public_ip_def raise_def split: option.splits)

lemma get_public_ip_provider_calls: "provider_calls (snd (get_public_ip cfg env)) = []"
  by (auto simp: provider_calls_def filter_empty_conv dest: get_public_ip_calls)

lemma get_public_ip_write_calls: "write_calls (snd (get_public_ip cfg env)) = []"
  by (auto simp: write_calls_def filter_empty_conv dest: get_public_ip_calls)

lemma provider_calls_simps:
  "provider_calls [] = []"
  "provider_calls (Log lv m # t) = provider_calls t"
  "provider_calls (Call r # t) = (if is_provider_call r then r # provider_calls t else provider_calls t)"
  "provider_calls (t @ u) = provider_calls t @ provider_calls u"
  by (simp_all add: provider_calls_def calls_of_append)

lemma write_calls_simps:
  "write_calls [] = []"
  "write_calls (Log lv m # t) = write_calls t"
  "write_calls (Call r # t) = (if is_write r then r # write_calls t else write_calls t)"
  "write_calls (t @ u) = write_calls t @ write_calls u"
  by (simp_all add: write_calls_def calls_of_append)

lemma request_kinds:
  "is_provider_call (list_request cfg)" "\<not> is_write (list_request cfg)"
  "is_provider_call (create_request cfg ip)" "is_write (create_request cfg ip)"
  "is_provider_call (update_request cfg rid ip)" "is_write (update_request cfg rid ip)"
  by (simp_all add: is_provider_call_def is_write_def list_request_def create_request_def
      update_request_def requests_get_def requests_post_def requests_put_def api_url_def)

lemma update_dns_listed:
  assumes "resolved_ip cfg env = Some ip"
    and "provider_success env (list_request cfg) = Some kvs"
    and "records = (case map_of kvs ''result'' of None \<Rightarrow> JArr [] | Some v \<Rightarrow> v)"
    and "k = (if \<not> truthy records then create_record cfg env ip
              else update_record cfg env ip records)"
  shows "fst (update_dns cfg env) = fst k"
    and "snd (update_dns cfg env) =
           Log INFO (MsgStart (RECORD_NAME cfg)) # snd (get_public_ip cfg env)
             @ Call (list_request cfg) # snd k"
  by (simp_all add: update_dns_resolved [OF assms(1)] update_with_ip_listed [OF assms(2)]
      assms(3,4) Let_def)

lemma listed_records_success:
  assumes "listed_records cfg env = Some rs"
  shows "\<exists>kvs. provider_success env (list_request cfg) = Some kvs \<and>
               map_of kvs ''result'' = Some (JArr rs)"
  using assms by (auto simp: listed_records_def split: option.splits json.splits)

lemma unchanged_run:
  assumes "ip_unchanged cfg env"
  shows "fst (update_dns cfg env) = Inr True"
    and "write_calls (snd (update_dns cfg env)) = []"
    and "provider_calls (snd (update_dns cfg env)) = [list_request cfg]"
    and "(INFO, MsgUnchanged) \<in> set (logs_of (snd (update_dns cfg env)))"
proof -
  from assms obtain ip r rs rid where ip: "resolved_ip cfg env = Some ip"
    and rs: "listed_records cfg env = Some (r # rs)"
    and rid: "record_field r ''id'' = Some rid"
    and c: "record_field r ''content'' = Some (JStr ip)"
    by (auto simp: ip_unchanged_def split: option.splits list.splits)
  obtain kvs where kvs: "provider_success env (list_request cfg) = Some kvs"
    "map_of kvs ''result'' = Some (JArr (r # rs))"
    using listed_records_success [OF rs] by blast
  note u = update_dns_listed [OF ip kvs(1) refl refl]
  have k: "update_record cfg env ip (JArr (r # rs)) =
             (Inr True, multiple_warning (r # rs) @ [Log INFO MsgUnchanged, Log INFO MsgDone])"
    by (simp add: update_record_first sync_record_unchanged [OF rid c])
  show "fst (update_dns cfg env) = Inr True"
    by (simp add: u kvs(2) k)
  have t: "snd (update_dns cfg env) =
         Log INFO (MsgStart (RECORD_NAME cfg)) # snd (get_public_ip cfg env)
           @ Call (list_request cfg) # multiple_warning (r # rs)
           @ [Log INFO MsgUnchanged, Log INFO MsgDone]"
    by (simp add: u kvs(2) k)
  show "write_calls (snd (update_dns cfg env)) = []"
    by (simp add: t write_calls_simps get_public_ip_write_calls request_kinds multiple_warning_def)
  show "provider_calls (snd (update_dns cfg env)) = [list_request cfg]"
    by (simp add: t provider_calls_simps get_public_ip_provider_calls request_kinds
        multiple_warning_def)
  show "(INFO, MsgUnchanged) \<in> set (logs_of (snd (update_dns cfg env)))"
    by (simp add: t logs_of_append)
qed

lemma run_many_unchanged:
  "\<forall>env\<in>set envs. ip_unchanged cfg env \<Longrightarrow>
   fst (run_many cfg envs) = replicate (length envs) (Inr True) \<and>
   write_calls (snd (run_many cfg envs)) = []"
proof (induction envs)
  case Nil
  show ?case by (simp add: write_calls_simps)
next
  case (Cons env envs)
  then have "ip_unchanged cfg env" by simp
  from unchanged_run(1,2) [OF this] Cons show ?case
    by (cases "update_dns cfg env"; cases "run_many cfg envs") (simp add: write_calls_simps)
qed

section \<open>An unchanged address\<close>

text \<open>Claim C1. In a run where the IP resolved equals the content of the first record the
  provider lists, \<^verbatim>\<open>update_dns\<close> returns \<^verbatim>\<open>True\<close> through the branch that logs the address as
  unchanged, and the only request it sends to the provider is the list call: no create,
  no update. Over any sequence of invocations that each meet the condition, every result
  is \<^verbatim>\<open>True\<close> and the whole trace holds no write.\<close>

theorem unchanged_ip_never_writes:
  assumes "\<forall>env\<in>set envs. ip_unchanged cfg env"
  shows "fst (run_many cfg envs) = replicate (length envs) (Inr True) \<and>
         write_calls (snd (run_many cfg envs)) = [] \<and>
         (\<forall>env\<in>set envs.
            fst (update_dns cfg env) = Inr True \<and>
            write_calls (snd (update_dns cfg env)) = [] \<and>
            provider_calls (snd (update_dns cfg env)) = [list_request cfg] \<and>
            (INFO, MsgUnchanged) \<in> set (logs_of (snd (update_dns cfg env))))"
  using run_many_unchanged [OF assms] assms unchanged_run by blast

lemma get_public_ip_second:
  "get_public_ip cfg_a (world (second_answers ''203.0.113.5'') ls wr) =
     (Inr (Some ''203.0.113.5''),
      [Call (service_request ''https://api.ipify.org''),
       Log DEBUG (MsgServiceFailed ''https://api.ipify.org'' (RequestException ''timed out'' None)),
       Call (service_request ''https://ipv4.icanhazip.com''),
       Log INFO (MsgGotIp ''203.0.113.5'')])"
  by (simp add: get_public_ip_def cfg_a_def services_def try_services_Cons world_def
      service_request_def requests_get_def second_answers_def timed_out_def ok_text_def
      strip_def isspace_def del: try_services.simps)

lemma same_ip_world_unchanged: "ip_unchanged cfg_a same_ip_world"
  by (simp add: ip_unchanged_def resolved_ip_def same_ip_world_def get_public_ip_second
      listed_records_def provider_success_def list_request_def requests_get_def world_def
      api_url_def listing_def ok_json_def one_record_def)

theorem unchanged_ip_never_writes_witness:
  "fst (run_many cfg_a [same_ip_world, same_ip_world, same_ip_world])
     = [Inr True, Inr True, Inr True] \<and>
   write_calls (snd (run_many cfg_a [same_ip_world, same_ip_world, same_ip_world])) = [] \<and>
   provider_calls (snd (update_dns cfg_a same_ip_world)) = [list_request cfg_a]"
proof -
  have h: "\<forall>env\<in>set [same_ip_world, same_ip_world, same_ip_world]. ip_unchanged cfg_a env"
    by (simp add: same_ip_world_unchanged)
  from unchanged_ip_never_writes [OF h] show ?thesis
    by (simp add: numeral_3_eq_3)
qed

lemma update_dns_creates:
  assumes "resolved_ip cfg env = Some ip"
    and "provider_success env (list_request cfg) = Some kvs"
    and "map_of kvs ''result'' = None \<or> (\<exists>v. map_of kvs ''result'' = Some v \<and> \<not> truthy v)"
  shows "fst (update_dns cfg env) = fst (create_record cfg env ip)"
    and "snd (update_dns cfg env) =
           Log INFO (MsgStart (RECORD_NAME cfg)) # snd (get_public_ip cfg env)
             @ Call (list_request cfg) # snd (create_record cfg env ip)"
    and "provider_calls (snd (update_dns cfg env)) = [list_request cfg, create_request cfg ip]"
proof -
  have nt: "\<not> truthy (case map_of kvs ''result'' of None \<Rightarrow> JArr [] | Some v \<Rightarrow> v)"
    using assms(3) by auto
  note u = update_dns_listed [OF assms(1,2) refl refl]
  show 1: "fst (update_dns cfg env) = fst (create_record cfg env ip)"
    using nt by (simp add: u)
  show 2: "snd (update_dns cfg env) =
           Log INFO (MsgStart (RECORD_NAME cfg)) # snd (get_public_ip cfg env)
             @ Call (list_request cfg) # snd (create_record cfg env ip)"
    using nt by (simp add: u)
  have "provider_calls (snd (create_record cfg env ip)) = [create_request cfg ip]"
    by (simp add: provider_calls_def create_record_calls request_kinds)
  then show "provider_calls (snd (update_dns cfg env)) = [list_request cfg, create_request cfg ip]"
    by (simp add: 2 provider_calls_simps get_public_ip_provider_calls request_kinds)
qed

section \<open>No record yet\<close>

text \<open>Claim C2, as the code has it. In a run that resolves an address \<open>ip\<close> and whose list
  call succeeds with an empty list of records, the requests sent to the provider are the
  list call and then one create call, a \<^verbatim>\<open>POST\<close> to \<^verbatim>\<open>dns_records\<close> whose body is the type,
  name and TTL of the configuration, \<open>ip\<close> as content and \<^verbatim>\<open>proxied\<close> false. When the
  provider reports success and its answer holds the new record, a \<^verbatim>\<open>result\<close> with an
  \<^verbatim>\<open>id\<close>, \<^verbatim>\<open>update_dns\<close> returns \<^verbatim>\<open>True\<close> and logs the creation; when the provider reports
  failure (a transport error, an error status, or \<^verbatim>\<open>success\<close> false with errors that are
  absent or start with an object), it returns \<^verbatim>\<open>False\<close> and logs the failed creation.\<close>

theorem create_when_no_record:
  assumes "resolved_ip cfg env = Some ip"
    and "listed_records cfg env = Some []"
  shows "provider_calls (snd (update_dns cfg env)) = [list_request cfg, create_request cfg ip] \<and>
         create_request cfg ip =
           \<lparr>meth = ''POST'', target = ApiUrl (ZONE_ID cfg) DnsRecords,
            headers = api_headers cfg,
            payload = Some (JObj [(''type'', JStr (RECORD_TYPE cfg)),
                                  (''name'', JStr (RECORD_NAME cfg)),
                                  (''content'', JStr ip),
                                  (''ttl'', JNum (TTL cfg)),
                                  (''proxied'', JBool False)]),
            timeout = None\<rparr> \<and>
         (\<forall>kvs res rid.
            provider_success env (create_request cfg ip) = Some kvs \<and>
            map_of kvs ''result'' = Some res \<and> record_field res ''id'' = Some rid \<longrightarrow>
            fst (update_dns cfg env) = Inr True \<and>
            (INFO, MsgCreated rid) \<in> set (logs_of (snd (update_dns cfg env)))) \<and>
         (\<forall>e. provider_failure env (create_request cfg ip) = Some e \<longrightarrow>
            fst (update_dns cfg env) = Inr False \<and>
            (ERROR, MsgCreateFailed e) \<in> set (logs_of (snd (update_dns cfg env))))"
proof -
  obtain kvs where kvs: "provider_success env (list_request cfg) = Some kvs"
    "map_of kvs ''result'' = Some (JArr [])"
    using listed_records_success [OF assms(2)] by blast
  have e: "map_of kvs ''result'' = None \<or> (\<exists>v. map_of kvs ''result'' = Some v \<and> \<not> truthy v)"
    by (simp add: kvs(2))
  note u = update_dns_creates [OF assms(1) kvs(1) e]
  have a: "provider_calls (snd (update_dns cfg env)) = [list_request cfg, create_request cfg ip]"
    by (rule u(3))
  have b: "create_request cfg ip =
           \<lparr>meth = ''POST'', target = ApiUrl (ZONE_ID cfg) DnsRecords,
            headers = api_headers cfg,
            payload = Some (JObj [(''type'', JStr (RECORD_TYPE cfg)),
                                  (''name'', JStr (RECORD_NAME cfg)),
                                  (''content'', JStr ip),
                                  (''ttl'', JNum (TTL cfg)),
                                  (''proxied'', JBool False)]),
            timeout = None\<rparr>"
    by (simp add: create_request_def requests_post_def api_url_def record_data_def)
  have c: "fst (update_dns cfg env) = Inr True \<and>
            (INFO, MsgCreated rid) \<in> set (logs_of (snd (update_dns cfg env)))"
    if "provider_success env (create_request cfg ip) = Some ckvs"
      "map_of ckvs ''result'' = Some res" "record_field res ''id'' = Some rid"
    for ckvs res rid
    by (simp add: u(1,2) create_record_success [OF that] logs_of_append)
  have d: "fst (update_dns cfg env) = Inr False \<and>
            (ERROR, MsgCreateFailed e) \<in> set (logs_of (snd (update_dns cfg env)))"
    if "provider_failure env (create_request cfg ip) = Some e" for e
    by (simp add: u(1,2) create_record_failure [OF that] logs_of_append)
  show ?thesis using a b c d by blast
qed

theorem create_when_no_record_witness:
  "provider_calls (snd (update_dns cfg_a (no_record_world created_reply)))
     = [list_request cfg_a, create_request cfg_a ''203.0.113.5''] \<and>
   fst (update_dns cfg_a (no_record_world created_reply)) = Inr True \<and>
   (INFO, MsgCreated (JStr ''r9'')) \<in> set (logs_of (snd (update_dns cfg_a (no_record_world created_reply)))) \<and>
   fst (update_dns cfg_a (no_record_world refused_reply)) = Inr False \<and>
   (ERROR, MsgCreateFailed (Message (JStr ''403 Client Error | Authentication error, Forbidden'')))
     \<in> set (logs_of (snd (update_dns cfg_a (no_record_world refused_reply))))"
proof -
  have ip: "resolved_ip cfg_a (no_record_world wr) = Some ''203.0.113.5''" for wr
    by (simp add: resolved_ip_def no_record_world_def get_public_ip_second)
  have ls: "listed_records cfg_a (no_record_world wr) = Some []" for wr
    by (simp add: listed_records_def provider_success_def list_request_def requests_get_def
        no_record_world_def world_def api_url_def listing_def ok_json_def)
  have ok: "provider_success (no_record_world created_reply) (create_request cfg_a ''203.0.113.5'')
              = Some [(''success'', JBool True), (''result'', one_record ''r9'' ''203.0.113.5'')]"
    by (simp add: provider_success_def create_request_def requests_post_def
        no_record_world_def world_def api_url_def created_reply_def ok_json_def)
  have res: "map_of [(''success'', JBool True), (''result'', one_record ''r9'' ''203.0.113.5'')] ''result''
               = Some (one_record ''r9'' ''203.0.113.5'')"
    by simp
  have rid: "record_field (one_record ''r9'' ''203.0.113.5'') ''id'' = Some (JStr ''r9'')"
    by (simp add: one_record_def)
  have bad: "provider_failure (no_record_world refused_reply) (create_request cfg_a ''203.0.113.5'')
              = Some (Message (JStr ''403 Client Error | Authentication error, Forbidden''))"
    by (simp add: provider_failure_def create_request_def requests_post_def
        no_record_world_def world_def api_url_def refused_reply_def bad_status_def
        reported_def error_detail_def)
  from create_when_no_record [OF ip ls, of created_reply] ok res rid
    create_when_no_record [OF ip ls, of refused_reply] bad
  show ?thesis by blast
qed

section \<open>A create call answered without the new record\<close>

text \<open>No record is listed and the provider answers the create call with \<^verbatim>\<open>success\<close> true
  and nothing else: line 300 raises \<^verbatim>\<open>KeyError\<close> after the \<^verbatim>\<open>POST\<close>, so the run returns
  neither \<^verbatim>\<open>True\<close> nor \<^verbatim>\<open>False\<close>. Answered with \<^verbatim>\<open>success\<close> false and an empty list of
  errors, line 305 raises \<^verbatim>\<open>IndexError\<close>.\<close>

theorem create_answer_without_record:
  "provider_success (no_record_world bare_success_reply) (create_request cfg_a ''203.0.113.5'')
     = Some [(''success'', JBool True)] \<and>
   provider_calls (snd (update_dns cfg_a (no_record_world bare_success_reply)))
     = [list_request cfg_a, create_request cfg_a ''203.0.113.5''] \<and>
   fst (update_dns cfg_a (no_record_world bare_success_reply)) = Inl KeyError \<and>
   get_success (JObj [(''success'', JBool False), (''errors'', JArr [])]) = Inr False \<and>
   provider_calls (snd (update_dns cfg_a (no_record_world empty_errors_reply)))
     = [list_request cfg_a, create_request cfg_a ''203.0.113.5''] \<and>
   fst (update_dns cfg_a (no_record_world empty_errors_reply)) = Inl IndexError"
proof -
  have ip: "resolved_ip cfg_a (no_record_world wr) = Some ''203.0.113.5''" for wr
    by (simp add: resolved_ip_def no_record_world_def get_public_ip_second)
  have ls: "provider_success (no_record_world wr) (list_request cfg_a)
              = Some [(''success'', JBool True), (''result'', JArr [])]" for wr
    by (simp add: provider_success_def list_request_def requests_get_def
        no_record_world_def world_def api_url_def listing_def ok_json_def)
  have e: "map_of [(''success'', JBool True), (''result'', JArr [])] ''result'' = None \<or>
           (\<exists>v. map_of [(''success'', JBool True), (''result'', JArr [])] ''result'' = Some v
                \<and> \<not> truthy v)"
    by simp
  note u = update_dns_creates [OF ip ls e]
  have wr: "no_record_world wr (create_request cfg_a ''203.0.113.5'') = wr" for wr
    by (simp add: no_record_world_def create_request_def requests_post_def world_def api_url_def)
  have 1: "provider_success (no_record_world bare_success_reply)
             (create_request cfg_a ''203.0.113.5'') = Some [(''success'', JBool True)]"
    by (simp add: provider_success_def wr bare_success_reply_def ok_json_def)
  have 3: "fst (create_record cfg_a (no_record_world bare_success_reply) ''203.0.113.5'')
             = Inl KeyError"
    by (simp add: create_record_def cf_api_request_POST create_request_def [symmetric] wr
        bare_success_reply_def ok_json_def api_outcome_def get_success_def
        bind_def logger_def lift_def ret_def)
  have 4: "get_success (JObj [(''success'', JBool False), (''errors'', JArr [])]) = Inr False"
    by (simp add: get_success_def)
  have 6: "fst (create_record cfg_a (no_record_world empty_errors_reply) ''203.0.113.5'')
             = Inl IndexError"
    by (simp add: create_record_def cf_api_request_POST create_request_def [symmetric] wr
        empty_errors_reply_def ok_json_def api_outcome_def get_success_def first_error_def
        get_default_def bind_def logger_def lift_def ret_def)
  from 1 u(3) [of bare_success_reply] 3 4 u(3) [of empty_errors_reply] 6
  show ?thesis by (simp add: u(1))
qed

lemma update_dns_syncs:
  assumes "resolved_ip cfg env = Some ip"
    and "listed_records cfg env = Some (r # rs)"
  shows "fst (update_dns cfg env) = fst (sync_record cfg env ip r)"
    and "snd (update_dns cfg env) =
           Log INFO (MsgStart (RECORD_NAME cfg)) # snd (get_public_ip cfg env)
             @ Call (list_request cfg) # multiple_warning (r # rs)
             @ snd (sync_record cfg env ip r)"
proof -
  obtain kvs where kvs: "provider_success env (list_request cfg) = Some kvs"
    "map_of kvs ''result'' = Some (JArr (r # rs))"
    using listed_records_success [OF assms(2)] by blast
  note u = update_dns_listed [OF assms(1) kvs(1) refl refl]
  show "fst (update_dns cfg env) = fst (sync_record cfg env ip r)"
    by (simp add: u kvs(2) update_record_first)
  show "snd (update_dns cfg env) =
           Log INFO (MsgStart (RECORD_NAME cfg)) # snd (get_public_ip cfg env)
             @ Call (list_request cfg) # multiple_warning (r # rs)
             @ snd (sync_record cfg env ip r)"
    by (simp add: u kvs(2) update_record_first)
qed


lemma sync_record_changed_calls:
  assumes "record_field r ''id'' = Some rid" and "record_field r ''content'' = Some c"
    and "c \<noteq> JStr ip"
  shows "calls_of (snd (sync_record cfg env ip r)) = [update_request cfg rid ip]"
  by (simp add: sync_record_def record_field_getitem [OF assms(1)]
      record_field_getitem [OF assms(2)] assms(3) cf_api_request_PUT
      update_request_def [symmetric] calls_bind calls_simple fst_simple calls_of_api_outcome
      split: sum.splits)

section \<open>A record with another address\<close>



section \<open>A list answer without records\<close>

text \<open>Claim C10. In a run that resolves an address, when the answer to the list call
  reports success and its \<^verbatim>\<open>result\<close> is absent or false as a Python value (the empty
  list, \<^verbatim>\<open>null\<close>), \<^verbatim>\<open>update_dns\<close> goes on exactly as the creation of lines 288--308 does:
  same result, the events of the creation after the list call, and the provider sees the
  list call and one create call, no update.\<close>

theorem missing_result_creates:
  assumes "resolved_ip cfg env = Some ip"
    and "provider_success env (list_request cfg) = Some kvs"
    and "map_of kvs ''result'' = None \<or> (\<exists>v. map_of kvs ''result'' = Some v \<and> \<not> truthy v)"
  shows "fst (update_dns cfg env) = fst (create_record cfg env ip) \<and>
         snd (update_dns cfg env) =
           Log INFO (MsgStart (RECORD_NAME cfg)) # snd (get_public_ip cfg env)
             @ Call (list_request cfg) # snd (create_record cfg env ip) \<and>
         provider_calls (snd (update_dns cfg env)) = [list_request cfg, create_request cfg ip]"
  using update_dns_creates [OF assms] by blast

theorem missing_result_creates_witness:
  "fst (update_dns cfg_a (bare_success_world created_reply)) = Inr True \<and>
   provider_calls (snd (update_dns cfg_a (bare_success_world created_reply)))
     = [list_request cfg_a, create_request cfg_a ''203.0.113.5'']"
proof -
  have ip: "resolved_ip cfg_a (bare_success_world created_reply) = Some ''203.0.113.5''"
    by (simp add: resolved_ip_def bare_success_world_def get_public_ip_second)
  have ls: "provider_success (bare_success_world created_reply) (list_request cfg_a)
              = Some [(''success'', JBool True)]"
    by (simp add: provider_success_def list_request_def requests_get_def
        bare_success_world_def world_def api_url_def ok_json_def)
  have no: "map_of [(''success'', JBool True)] ''result'' = None \<or>
            (\<exists>v. map_of [(''success'', JBool True)] ''result'' = Some v \<and> \<not> truthy v)"
    by simp
  have ok: "provider_success (bare_success_world created_reply) (create_request cfg_a ''203.0.113.5'')
              = Some [(''success'', JBool True), (''result'', one_record ''r9'' ''203.0.113.5'')]"
    by (simp add: provider_success_def create_request_def requests_post_def
        bare_success_world_def world_def api_url_def created_reply_def ok_json_def)
  have cr: "fst (create_record cfg_a (bare_success_world created_reply) ''203.0.113.5'') = Inr True"
    by (simp add: create_record_success [OF ok, of "one_record ''r9'' ''203.0.113.5''" "JStr ''r9''"]
        one_record_def)
  note m = missing_result_creates [OF ip ls no]
  from m have "fst (update_dns cfg_a (bare_success_world created_reply)) = Inr True"
    by (simp only: cr)
  moreover from m have "provider_calls (snd (update_dns cfg_a (bare_success_world created_reply)))
     = [list_request cfg_a, create_request cfg_a ''203.0.113.5'']"
    by (elim conjE)
  ultimately show ?thesis by (rule conjI)
qed

lemma try_services_cong:
  "\<forall>s\<in>set urls. env1 (service_request s) = env (service_request s) \<Longrightarrow>
   try_services env1 urls = try_services env urls"
proof (induction urls)
  case Nil
  show ?case by simp
next
  case (Cons s rest)
  then have ih: "try_services env1 rest = try_services env rest"
    and eq: "env1 (service_request s) = env (service_request s)"
    by simp_all
  show ?case
    unfolding try_services_Cons ih eq ..
qed

lemma service_request_not_list: "service_request s \<noteq> list_request cfg"
  by (simp add: service_request_def list_request_def requests_get_def api_url_def)

lemma update_request_not_list: "update_request cfg rid ip \<noteq> list_request cfg"
  by (simp add: update_request_def list_request_def requests_get_def requests_put_def)

lemma get_public_ip_cong:
  "\<forall>req. req \<noteq> list_request cfg \<longrightarrow> env1 req = env req \<Longrightarrow>
   get_public_ip cfg env1 = get_public_ip cfg env"
  by (simp add: get_public_ip_def service_request_not_list try_services_cong split: option.splits)

lemma sync_record_cong:
  assumes "\<forall>req. req \<noteq> list_request cfg \<longrightarrow> env1 req = env req"
  shows "sync_record cfg env1 ip r = sync_record cfg env ip r"
proof -
  have "env1 (update_request cfg rid ip) = env (update_request cfg rid ip)" for rid
    using assms by (simp add: update_request_not_list)
  then have h: "cf_api_request cfg env1 ''PUT'' (DnsRecord rid) (Some (record_data cfg ip))
             = cf_api_request cfg env ''PUT'' (DnsRecord rid) (Some (record_data cfg ip))" for rid
    by (simp add: cf_api_request_PUT update_request_def [symmetric])
  show ?thesis
    unfolding sync_record_def h by (rule refl)
qed

section \<open>Several records\<close>

text \<open>Claim C4. In a run that resolves an address \<open>ip\<close> and whose list call succeeds with
  more than one record, \<^verbatim>\<open>update_dns\<close> logs a warning with the number of records after the
  list call and then works on the first record only, whatever the other records are. It
  compares the content of the first record with \<open>ip\<close>: when they are equal it returns
  \<^verbatim>\<open>True\<close> with the address logged as unchanged and the list call is its only request to
  the provider; when they differ its requests to the provider are the list call and one
  \<^verbatim>\<open>PUT\<close> to the id of the first record, and it returns \<^verbatim>\<open>True\<close> or \<^verbatim>\<open>False\<close> as the provider
  reports success or failure. No request of the run is a \<^verbatim>\<open>POST\<close>: nothing is created. The
  warning changes nothing else: against a world that differs only in listing the first
  record by itself, the result and the requests are the same and the events are the same
  without the warning.\<close>

theorem first_record_only:
  assumes "resolved_ip cfg env = Some ip"
    and "listed_records cfg env = Some (r # r' # rs)"
    and "record_field r ''id'' = Some rid"
    and "record_field r ''content'' = Some c"
  shows "snd (update_dns cfg env) =
           Log INFO (MsgStart (RECORD_NAME cfg)) # snd (get_public_ip cfg env)
             @ Call (list_request cfg) # Log WARNING (MsgMultiple (length (r # r' # rs)))
             # snd (sync_record cfg env ip r) \<and>
         (\<forall>req\<in>set (calls_of (snd (update_dns cfg env))). meth req \<noteq> ''POST'') \<and>
         (c = JStr ip \<longrightarrow>
            fst (update_dns cfg env) = Inr True \<and>
            snd (update_dns cfg env) =
              Log INFO (MsgStart (RECORD_NAME cfg)) # snd (get_public_ip cfg env)
                @ [Call (list_request cfg), Log WARNING (MsgMultiple (length (r # r' # rs))),
                   Log INFO MsgUnchanged, Log INFO MsgDone] \<and>
            provider_calls (snd (update_dns cfg env)) = [list_request cfg]) \<and>
         (c \<noteq> JStr ip \<longrightarrow>
            provider_calls (snd (update_dns cfg env))
              = [list_request cfg, update_request cfg rid ip] \<and>
            (\<forall>kvs. provider_success env (update_request cfg rid ip) = Some kvs \<longrightarrow>
               fst (update_dns cfg env) = Inr True \<and>
               snd (update_dns cfg env) =
                 Log INFO (MsgStart (RECORD_NAME cfg)) # snd (get_public_ip cfg env)
                   @ [Call (list_request cfg), Log WARNING (MsgMultiple (length (r # r' # rs))),
                      Log INFO (MsgChanged c ip), Call (update_request cfg rid ip),
                      Log INFO (MsgUpdated (RECORD_NAME cfg) ip), Log INFO MsgDone]) \<and>
            (\<forall>e. provider_failure env (update_request cfg rid ip) = Some e \<longrightarrow>
               fst (update_dns cfg env) = Inr False \<and>
               (ERROR, MsgUpdateFailed e) \<in> set (logs_of (snd (update_dns cfg env))))) \<and>
         (\<forall>env1. listed_records cfg env1 = Some [r] \<and>
                 (\<forall>req. req \<noteq> list_request cfg \<longrightarrow> env1 req = env req) \<longrightarrow>
            fst (update_dns cfg env1) = fst (update_dns cfg env) \<and>
            calls_of (snd (update_dns cfg env1)) = calls_of (snd (update_dns cfg env)) \<and>
            snd (update_dns cfg env1) =
              Log INFO (MsgStart (RECORD_NAME cfg)) # snd (get_public_ip cfg env)
                @ Call (list_request cfg) # snd (sync_record cfg env ip r))"
proof -
  note u = update_dns_syncs [OF assms(1,2)]
  have w: "multiple_warning (r # r' # rs) = [Log WARNING (MsgMultiple (length (r # r' # rs)))]"
    by (simp add: multiple_warning_def)
  have a: "snd (update_dns cfg env) =
           Log INFO (MsgStart (RECORD_NAME cfg)) # snd (get_public_ip cfg env)
             @ Call (list_request cfg) # Log WARNING (MsgMultiple (length (r # r' # rs)))
             # snd (sync_record cfg env ip r)"
    by (simp add: u(2) w)
  have b: "meth req \<noteq> ''POST''" if "req \<in> set (calls_of (snd (update_dns cfg env)))" for req
  proof -
    from that have "req \<in> set (calls_of (snd (get_public_ip cfg env))) \<or> req = list_request cfg
        \<or> req \<in> set (calls_of (snd (sync_record cfg env ip r)))"
      by (auto simp: a calls_of_append)
    then show ?thesis
      using sync_record_calls [of cfg env ip r]
      by (auto simp: service_request_def list_request_def update_request_def requests_get_def
          requests_put_def dest!: get_public_ip_calls)
  qed
  have c: "fst (update_dns cfg env) = Inr True \<and>
            snd (update_dns cfg env) =
              Log INFO (MsgStart (RECORD_NAME cfg)) # snd (get_public_ip cfg env)
                @ [Call (list_request cfg), Log WARNING (MsgMultiple (length (r # r' # rs))),
                   Log INFO MsgUnchanged, Log INFO MsgDone] \<and>
            provider_calls (snd (update_dns cfg env)) = [list_request cfg]"
    if "c = JStr ip"
  proof -
    from assms(4) that have "record_field r ''content'' = Some (JStr ip)" by simp
    note s = sync_record_unchanged [OF assms(3) this, of cfg env]
    show ?thesis
      by (simp add: u(1) a s provider_calls_simps get_public_ip_provider_calls request_kinds)
  qed
  have d1: "provider_calls (snd (update_dns cfg env))
              = [list_request cfg, update_request cfg rid ip]"
    if "c \<noteq> JStr ip"
  proof -
    have "provider_calls (snd (sync_record cfg env ip r)) = [update_request cfg rid ip]"
      by (simp add: provider_calls_def sync_record_changed_calls [OF assms(3,4) that]
          request_kinds)
    then show ?thesis
      by (simp add: a provider_calls_simps get_public_ip_provider_calls request_kinds)
  qed
  have d2: "fst (update_dns cfg env) = Inr True \<and>
               snd (update_dns cfg env) =
                 Log INFO (MsgStart (RECORD_NAME cfg)) # snd (get_public_ip cfg env)
                   @ [Call (list_request cfg), Log WARNING (MsgMultiple (length (r # r' # rs))),
                      Log INFO (MsgChanged c ip), Call (update_request cfg rid ip),
                      Log INFO (MsgUpdated (RECORD_NAME cfg) ip), Log INFO MsgDone]"
    if "c \<noteq> JStr ip" "provider_success env (update_request cfg rid ip) = Some kvs" for kvs
    by (simp add: u(1) a sync_record_success [OF assms(3,4) that])
  have d3: "fst (update_dns cfg env) = Inr False \<and>
               (ERROR, MsgUpdateFailed e) \<in> set (logs_of (snd (update_dns cfg env)))"
    if "c \<noteq> JStr ip" "provider_failure env (update_request cfg rid ip) = Some e" for e
    by (simp add: u(1) a sync_record_failure [OF assms(3,4) that] logs_of_append)
  have e: "fst (update_dns cfg env1) = fst (update_dns cfg env) \<and>
            calls_of (snd (update_dns cfg env1)) = calls_of (snd (update_dns cfg env)) \<and>
            snd (update_dns cfg env1) =
              Log INFO (MsgStart (RECORD_NAME cfg)) # snd (get_public_ip cfg env)
                @ Call (list_request cfg) # snd (sync_record cfg env ip r)"
    if l1: "listed_records cfg env1 = Some [r]"
      and same: "\<forall>req. req \<noteq> list_request cfg \<longrightarrow> env1 req = env req" for env1
  proof -
    have g: "get_public_ip cfg env1 = get_public_ip cfg env"
      using same by (rule get_public_ip_cong)
    have s: "sync_record cfg env1 ip r = sync_record cfg env ip r"
      using same by (rule sync_record_cong)
    have ip1: "resolved_ip cfg env1 = Some ip"
      using assms(1) by (simp add: resolved_ip_def g)
    note u1 = update_dns_syncs [OF ip1 l1]
    have t1: "snd (update_dns cfg env1) =
              Log INFO (MsgStart (RECORD_NAME cfg)) # snd (get_public_ip cfg env)
                @ Call (list_request cfg) # snd (sync_record cfg env ip r)"
      by (simp add: u1(2) g s multiple_warning_def)
    have "fst (update_dns cfg env1) = fst (update_dns cfg env)"
      by (simp add: u(1) u1(1) s)
    moreover have "calls_of (snd (update_dns cfg env1)) = calls_of (snd (update_dns cfg env))"
      by (simp add: a t1 calls_of_append)
    ultimately show ?thesis using t1 by (intro conjI)
  qed
  show ?thesis
  proof (intro conjI)
    show "snd (update_dns cfg env) =
           Log INFO (MsgStart (RECORD_NAME cfg)) # snd (get_public_ip cfg env)
             @ Call (list_request cfg) # Log WARNING (MsgMultiple (length (r # r' # rs)))
             # snd (sync_record cfg env ip r)"
      by (rule a)
    show "\<forall>req\<in>set (calls_of (snd (update_dns cfg env))). meth req \<noteq> ''POST''"
      by (intro ballI) (erule b)
    show "c = JStr ip \<longrightarrow>
            fst (update_dns cfg env) = Inr True \<and>
            snd (update_dns cfg env) =
              Log INFO (MsgStart (RECORD_NAME cfg)) # snd (get_public_ip cfg env)
                @ [Call (list_request cfg), Log WARNING (MsgMultiple (length (r # r' # rs))),
                   Log INFO MsgUnchanged, Log INFO MsgDone] \<and>
            provider_calls (snd (update_dns cfg env)) = [list_request cfg]"
      by (intro impI) (erule c)
    show "c \<noteq> JStr ip \<longrightarrow>
            provider_calls (snd (update_dns cfg env))
              = [list_request cfg, update_request cfg rid ip] \<and>
            (\<forall>kvs. provider_success env (update_request cfg rid ip) = Some kvs \<longrightarrow>
               fst (update_dns cfg env) = Inr True \<and>
               snd (update_dns cfg env) =
                 Log INFO (MsgStart (RECORD_NAME cfg)) # snd (get_public_ip cfg env)
                   @ [Call (list_request cfg), Log WARNING (MsgMultiple (length (r # r' # rs))),
                      Log INFO (MsgChanged c ip), Call (update_request cfg rid ip),
                      Log INFO (MsgUpdated (RECORD_NAME cfg) ip), Log INFO MsgDone]) \<and>
            (\<forall>e. provider_failure env (update_request cfg rid ip) = Some e \<longrightarrow>
               fst (update_dns cfg env) = Inr False \<and>
               (ERROR, MsgUpdateFailed e) \<in> set (logs_of (snd (update_dns cfg env))))"
    proof (intro impI conjI allI)
      assume ne: "c \<noteq> JStr ip"
      show "provider_calls (snd (update_dns cfg env))
              = [list_request cfg, update_request cfg rid ip]"
        using ne by (rule d1)
      fix kvs
      assume "provider_success env (update_request cfg rid ip) = Some kvs"
      note k = d2 [OF ne this]
      from k show "fst (update_dns cfg env) = Inr True"
        by (rule conjunct1)
      from k show "snd (update_dns cfg env) =
                 Log INFO (MsgStart (RECORD_NAME cfg)) # snd (get_public_ip cfg env)
                   @ [Call (list_request cfg), Log WARNING (MsgMultiple (length (r # r' # rs))),
                      Log INFO (MsgChanged c ip), Call (update_request cfg rid ip),
                      Log INFO (MsgUpdated (RECORD_NAME cfg) ip), Log INFO MsgDone]"
        by (rule conjunct2)
    next
      fix e
      assume ne: "c \<noteq> JStr ip"
        and "provider_failure env (update_request cfg rid ip) = Some e"
      note k = d3 [OF this]
      from k show "fst (update_dns cfg env) = Inr False"
        by (rule conjunct1)
      from k show "(ERROR, MsgUpdateFailed e) \<in> set (logs_of (snd (update_dns cfg env)))"
        by (rule conjunct2)
    qed
    show "\<forall>env1. listed_records cfg env1 = Some [r] \<and>
                 (\<forall>req. req \<noteq> list_request cfg \<longrightarrow> env1 req = env req) \<longrightarrow>
            fst (update_dns cfg env1) = fst (update_dns cfg env) \<and>
            calls_of (snd (update_dns cfg env1)) = calls_of (snd (update_dns cfg env)) \<and>
            snd (update_dns cfg env1) =
              Log INFO (MsgStart (RECORD_NAME cfg)) # snd (get_public_ip cfg env)
                @ Call (list_request cfg) # snd (sync_record cfg env ip r)"
      by (intro allI impI, elim conjE) (erule (1) e)
  qed
qed

lemma get_public_ip_second_new:
  "get_public_ip cfg_a (world (second_answers ''203.0.113.9'') ls wr) =
     (Inr (Some ''203.0.113.9''),
      [Call (service_request ''https://api.ipify.org''),
       Log DEBUG (MsgServiceFailed ''https://api.ipify.org'' (RequestException ''timed out'' None)),
       Call (service_request ''https://ipv4.icanhazip.com''),
       Log INFO (MsgGotIp ''203.0.113.9'')])"
  by (simp add: get_public_ip_def cfg_a_def services_def try_services_Cons world_def
      service_request_def requests_get_def second_answers_def timed_out_def ok_text_def
      strip_def isspace_def del: try_services.simps)

theorem first_record_only_witness:
  "provider_calls (snd (update_dns cfg_a two_records_world))
     = [list_request cfg_a, update_request cfg_a (JStr ''r1'') ''203.0.113.9''] \<and>
   fst (update_dns cfg_a two_records_world) = Inr True \<and>
   fst (update_dns cfg_a first_alone_world) = fst (update_dns cfg_a two_records_world) \<and>
   calls_of (snd (update_dns cfg_a first_alone_world))
     = calls_of (snd (update_dns cfg_a two_records_world)) \<and>
   fst (update_dns cfg_a two_records_same_world) = Inr True \<and>
   provider_calls (snd (update_dns cfg_a two_records_same_world)) = [list_request cfg_a]"
proof -
  have ip: "resolved_ip cfg_a two_records_world = Some ''203.0.113.9''"
    by (simp add: resolved_ip_def two_records_world_def old_record_world_def
        get_public_ip_second_new)
  have ls: "listed_records cfg_a two_records_world
              = Some (one_record ''r1'' ''203.0.113.1'' # one_record ''r2'' ''203.0.113.2'' # [])"
    by (simp add: listed_records_def provider_success_def list_request_def requests_get_def
        two_records_world_def old_record_world_def world_def api_url_def listing_def ok_json_def)
  have rid: "record_field (one_record ''r1'' ''203.0.113.1'') ''id'' = Some (JStr ''r1'')"
    and c: "record_field (one_record ''r1'' ''203.0.113.1'') ''content'' = Some (JStr ''203.0.113.1'')"
    and ne: "JStr ''203.0.113.1'' \<noteq> JStr ''203.0.113.9''"
    by (simp_all add: one_record_def)
  have ok: "provider_success two_records_world
              (update_request cfg_a (JStr ''r1'') ''203.0.113.9'')
              = Some [(''success'', JBool True), (''result'', one_record ''r1'' ''203.0.113.9'')]"
    by (simp add: provider_success_def update_request_def requests_put_def
        two_records_world_def old_record_world_def world_def api_url_def updated_reply_def
        ok_json_def)
  have ls1: "listed_records cfg_a first_alone_world = Some [one_record ''r1'' ''203.0.113.1''] \<and>
             (\<forall>req. req \<noteq> list_request cfg_a \<longrightarrow> first_alone_world req = two_records_world req)"
    by (simp add: listed_records_def provider_success_def first_alone_world_def listing_def
        ok_json_def)
  note t = first_record_only [OF ip ls rid c]
  note d = t [THEN conjunct2, THEN conjunct2, THEN conjunct2, THEN conjunct1, THEN mp, OF ne]
  from d have 1: "provider_calls (snd (update_dns cfg_a two_records_world))
     = [list_request cfg_a, update_request cfg_a (JStr ''r1'') ''203.0.113.9'']"
    by (rule conjunct1)
  note d' = d [THEN conjunct2, THEN conjunct1, THEN spec, THEN mp, OF ok]
  from d' have 2: "fst (update_dns cfg_a two_records_world) = Inr True"
    by (rule conjunct1)
  note e = t [THEN conjunct2, THEN conjunct2, THEN conjunct2, THEN conjunct2, THEN spec,
              THEN mp, OF ls1]
  from e have 3: "fst (update_dns cfg_a first_alone_world) = fst (update_dns cfg_a two_records_world)"
    by (rule conjunct1)
  from e have 4: "calls_of (snd (update_dns cfg_a first_alone_world))
     = calls_of (snd (update_dns cfg_a two_records_world))"
    by (elim conjE)
  have ip': "resolved_ip cfg_a two_records_same_world = Some ''203.0.113.5''"
    by (simp add: resolved_ip_def two_records_same_world_def get_public_ip_second)
  have ls': "listed_records cfg_a two_records_same_world
              = Some (one_record ''r1'' ''203.0.113.5'' # one_record ''r2'' ''203.0.113.2'' # [])"
    by (simp add: listed_records_def provider_success_def list_request_def requests_get_def
        two_records_same_world_def world_def api_url_def listing_def ok_json_def)
  have rid': "record_field (one_record ''r1'' ''203.0.113.5'') ''id'' = Some (JStr ''r1'')"
    and c': "record_field (one_record ''r1'' ''203.0.113.5'') ''content'' = Some (JStr ''203.0.113.5'')"
    by (simp_all add: one_record_def)
  note t' = first_record_only [OF ip' ls' rid' c']
  note u = t' [THEN conjunct2, THEN conjunct2, THEN conjunct1, THEN mp, OF refl]
  from u have 5: "fst (update_dns cfg_a two_records_same_world) = Inr True"
    by (rule conjunct1)
  from u have 6: "provider_calls (snd (update_dns cfg_a two_records_same_world)) = [list_request cfg_a]"
    by (elim conjE)
  from 1 2 3 4 5 6 show ?thesis by (intro conjI)
qed

lemma update_with_ip_calls:
  "calls_of (snd (update_with_ip cfg env ip)) = [list_request cfg] \<or>
   calls_of (snd (update_with_ip cfg env ip)) = [list_request cfg, create_request cfg ip] \<or>
   (\<exists>rid. calls_of (snd (update_with_ip cfg env ip)) = [list_request cfg, update_request cfg rid ip])"
  using update_record_calls [of cfg env ip]
  by (auto simp add: update_with_ip_def cf_api_request_GET list_request_def [symmetric]
      calls_bind calls_simple fst_simple calls_of_api_outcome create_record_calls
      split: sum.splits)

lemma update_dns_calls:
  "\<exists>gs ws. calls_of (snd (update_dns cfg env)) = gs @ ws \<and>
     (\<forall>g\<in>set gs. \<exists>s. g = service_request s) \<and>
     (ws = [] \<or> ws = [list_request cfg] \<or>
      (\<exists>ip. ws = [list_request cfg, create_request cfg ip]) \<or>
      (\<exists>ip rid. ws = [list_request cfg, update_request cfg rid ip]))"
proof -
  let ?gs = "calls_of (snd (get_public_ip cfg env))"
  have gs: "\<forall>g\<in>set ?gs. \<exists>s. g = service_request s"
    by (auto dest: get_public_ip_calls)
  have "\<exists>ws. calls_of (snd (update_dns cfg env)) = ?gs @ ws \<and>
     (ws = [] \<or> ws = [list_request cfg] \<or>
      (\<exists>ip. ws = [list_request cfg, create_request cfg ip]) \<or>
      (\<exists>ip rid. ws = [list_request cfg, update_request cfg rid ip]))"
  proof (cases "fst (get_public_ip cfg env)")
    case (Inl e)
    then show ?thesis
      by (simp add: update_dns_def calls_bind calls_simple fst_simple)
  next
    case (Inr cur)
    show ?thesis
    proof (cases cur)
      case None
      with Inr show ?thesis
        by (simp add: update_dns_def resolution_failed_def calls_bind calls_simple fst_simple)
    next
      case (Some ip)
      show ?thesis
      proof (cases "ip = []")
        case True
        with Inr Some show ?thesis
          by (simp add: update_dns_def resolution_failed_def calls_bind calls_simple fst_simple)
      next
        case False
        with Inr Some have "calls_of (snd (update_dns cfg env))
            = ?gs @ calls_of (snd (update_with_ip cfg env ip))"
          by (simp add: update_dns_def calls_bind calls_simple fst_simple)
        with update_with_ip_calls [of cfg env ip] show ?thesis
          by auto
      qed
    qed
  qed
  with gs show ?thesis by blast
qed

lemma body_field_update_request:
  "body_field (update_request cfg rid ip) ''type'' = Some (JStr (RECORD_TYPE cfg))"
  "body_field (update_request cfg rid ip) ''name'' = Some (JStr (RECORD_NAME cfg))"
  "body_field (update_request cfg rid ip) ''content'' = Some (JStr ip)"
  "body_field (update_request cfg rid ip) ''ttl'' = Some (JNum (TTL cfg))"
  "body_field (update_request cfg rid ip) ''proxied'' = Some (JBool False)"
  by (simp_all add: body_field_def update_request_def requests_put_def record_data_def)

lemma meths:
  "meth (service_request s) = ''GET''" "meth (list_request cfg) = ''GET''"
  "meth (create_request cfg ip) = ''POST''" "meth (update_request cfg rid ip) = ''PUT''"
  by (simp_all add: service_request_def list_request_def create_request_def update_request_def
      requests_get_def requests_post_def requests_put_def)

lemma getitem_record_field: "getitem r k = Inr v \<Longrightarrow> record_field r k = Some v"
  by (cases r) (auto split: option.splits)

lemma api_outcome_success:
  assumes "fst (api_outcome req (env req)) = Inr j" and "get_success j = Inr True"
  shows "\<exists>kvs. j = JObj kvs \<and> provider_success env req = Some kvs"
proof (cases "env req")
  case (Raise e)
  with assms show ?thesis
    by (cases e) (auto simp: api_outcome_def fst_api_failed get_success_failure)
next
  case (Return r)
  show ?thesis
  proof (cases "http_error r")
    case (Some msg)
    with assms Return show ?thesis
      by (auto simp: api_outcome_def fst_api_failed get_success_failure)
  next
    case None
    show ?thesis
    proof (cases "json_body r")
      case (Inl msg)
      with assms Return None show ?thesis
        by (auto simp: api_outcome_def fst_api_failed get_success_failure)
    next
      case (Inr j')
      with assms(1) Return None have j: "j' = j"
        by (simp add: api_outcome_def)
      from assms(2) obtain kvs v where "j = JObj kvs" "map_of kvs ''success'' = Some v" "truthy v"
        by (cases j) (auto simp: get_success_def split: option.splits)
      with Return None Inr j show ?thesis
        by (simp add: provider_success_def)
    qed
  qed
qed

lemma sync_record_put:
  assumes "req \<in> set (calls_of (snd (sync_record cfg env ip r)))"
  shows "\<exists>rid. record_field r ''id'' = Some rid \<and> req = update_request cfg rid ip"
proof (cases "getitem r ''id''")
  case (Inl e)
  with assms show ?thesis
    by (simp add: sync_record_def calls_bind calls_simple fst_simple)
next
  case (Inr rid)
  then have "record_field r ''id'' = Some rid"
    by (rule getitem_record_field)
  moreover from assms Inr have "req = update_request cfg rid ip"
    by (auto simp add: sync_record_def cf_api_request_PUT update_request_def [symmetric]
        calls_bind calls_simple fst_simple calls_of_api_outcome split: sum.splits if_splits)
  ultimately show ?thesis by simp
qed

lemma update_record_put:
  assumes "req \<in> set (calls_of (snd (update_record cfg env ip records)))"
  shows "\<exists>r rs rid. records = JArr (r # rs) \<and> record_field r ''id'' = Some rid \<and>
           req = update_request cfg rid ip"
proof (cases records)
  case (JArr xs)
  show ?thesis
  proof (cases xs)
    case Nil
    with assms JArr show ?thesis
      by (simp add: update_record_def calls_bind calls_simple fst_simple)
  next
    case (Cons r rs)
    with assms JArr have "req \<in> set (calls_of (snd (sync_record cfg env ip r)))"
      by (auto simp add: update_record_first calls_of_append multiple_warning_def
          split: if_splits)
    from sync_record_put [OF this] JArr Cons show ?thesis by simp
  qed
next
  case (JStr s)
  with assms show ?thesis
    by (cases s) (auto simp add: update_record_def sync_record_def calls_bind calls_simple
        fst_simple split: if_splits)
qed (use assms in \<open>auto simp add: update_record_def calls_bind calls_simple fst_simple
      split: if_splits\<close>)

lemma update_with_ip_put:
  assumes "req \<in> set (calls_of (snd (update_with_ip cfg env ip)))" and "meth req = ''PUT''"
  shows "\<exists>r rs rid. listed_records cfg env = Some (r # rs) \<and>
           record_field r ''id'' = Some rid \<and> req = update_request cfg rid ip"
proof -
  let ?out = "api_outcome (list_request cfg) (env (list_request cfg))"
  have nl: "req \<noteq> list_request cfg" and nc: "req \<noteq> create_request cfg ip"
    using assms(2) by (auto simp: meths)
  show ?thesis
  proof (cases "fst ?out")
    case (Inl e)
    with assms(1) nl show ?thesis
      by (simp add: update_with_ip_def cf_api_request_GET list_request_def [symmetric]
          calls_bind calls_simple fst_simple calls_of_api_outcome)
  next
    case (Inr result)
    show ?thesis
    proof (cases "get_success result = Inr True")
      case False
      then consider (raised) e where "get_success result = Inl e"
        | (no) "get_success result = Inr False"
        by (cases "get_success result") auto
      then show ?thesis
      proof cases
        case raised
        with assms(1) nl Inr show ?thesis
          by (simp add: update_with_ip_def cf_api_request_GET list_request_def [symmetric]
              calls_bind calls_simple fst_simple calls_of_api_outcome)
      next
        case no
        with assms(1) nl Inr show ?thesis
          by (auto simp add: update_with_ip_def cf_api_request_GET list_request_def [symmetric]
              calls_bind calls_simple fst_simple calls_of_api_outcome split: sum.splits)
      qed
    next
      case True
      from api_outcome_success [of "list_request cfg" env result, OF Inr True] obtain kvs where kvs: "result = JObj kvs"
        "provider_success env (list_request cfg) = Some kvs" by iprover
      let ?records = "case map_of kvs ''result'' of None \<Rightarrow> JArr [] | Some v \<Rightarrow> v"
      from assms(1) nl nc have "req \<in> set (calls_of (snd (update_record cfg env ip ?records)))"
        by (auto simp add: update_with_ip_listed [OF kvs(2)] Let_def create_record_calls
            split: if_splits)
      from update_record_put [OF this] obtain r rs rid where r: "?records = JArr (r # rs)"
        "record_field r ''id'' = Some rid" "req = update_request cfg rid ip" by iprover
      from r(1) have "map_of kvs ''result'' = Some (JArr (r # rs))"
        by (cases "map_of kvs ''result''") simp_all
      with kvs(2) have "listed_records cfg env = Some (r # rs)"
        by (simp add: listed_records_def)
      with r(2,3) show ?thesis by iprover
    qed
  qed
qed

lemma update_dns_put:
  assumes "req \<in> set (calls_of (snd (update_dns cfg env)))" and "meth req = ''PUT''"
  shows "\<exists>ip r rs rid. resolved_ip cfg env = Some ip \<and> listed_records cfg env = Some (r # rs) \<and>
           record_field r ''id'' = Some rid \<and> req = update_request cfg rid ip"
proof -
  have ng: "req \<notin> set (calls_of (snd (get_public_ip cfg env)))"
    using assms(2) by (auto dest!: get_public_ip_calls simp: meths)
  show ?thesis
  proof (cases "resolved_ip cfg env")
    case None
    then have "calls_of (snd (update_dns cfg env)) = calls_of (snd (get_public_ip cfg env))"
      by (auto simp add: update_dns_def resolved_ip_def resolution_failed_def calls_bind
          calls_simple fst_simple split: sum.splits option.splits)
    with assms(1) ng show ?thesis by simp
  next
    case (Some ip)
    with assms(1) ng have "req \<in> set (calls_of (snd (update_with_ip cfg env ip)))"
      by (simp add: update_dns_resolved [OF Some] calls_of_append)
    from update_with_ip_put [OF this assms(2)] Some show ?thesis by iprover
  qed
qed

section \<open>Writes of a run\<close>

text \<open>Claim C8, as the code has it. Every run sends at most one write to the provider and
  only \<^verbatim>\<open>GET\<close>, \<^verbatim>\<open>POST\<close> and \<^verbatim>\<open>PUT\<close> requests, so never a \<^verbatim>\<open>DELETE\<close>. An update is sent only
  in a run that resolved an address and was given a list of records; it goes to the id of
  the first record listed and writes the type, name and TTL of the configuration, the
  address resolved as content, and \<^verbatim>\<open>proxied\<close> false. So it leaves the type of that record as
  it is exactly when the record has the type of the configuration, its name exactly when
  the record has the name of the configuration, and its proxied status exactly when the
  record was not proxied.\<close>

theorem one_write_no_delete:
  "length (write_calls (snd (update_dns cfg env))) \<le> 1 \<and>
   (\<forall>req\<in>set (calls_of (snd (update_dns cfg env))).
      meth req = ''GET'' \<or> meth req = ''POST'' \<or> meth req = ''PUT'') \<and>
   (\<forall>req\<in>set (calls_of (snd (update_dns cfg env))).
      meth req = ''PUT'' \<longrightarrow>
        (\<exists>ip r rs rid.
           resolved_ip cfg env = Some ip \<and> listed_records cfg env = Some (r # rs) \<and>
           record_field r ''id'' = Some rid \<and>
           target req = ApiUrl (ZONE_ID cfg) (DnsRecord rid) \<and>
           body_field req ''type'' = Some (JStr (RECORD_TYPE cfg)) \<and>
           body_field req ''name'' = Some (JStr (RECORD_NAME cfg)) \<and>
           body_field req ''content'' = Some (JStr ip) \<and>
           body_field req ''ttl'' = Some (JNum (TTL cfg)) \<and>
           body_field req ''proxied'' = Some (JBool False) \<and>
           (keeps_field ''type'' r req
              \<longleftrightarrow> record_field r ''type'' = Some (JStr (RECORD_TYPE cfg))) \<and>
           (keeps_field ''name'' r req
              \<longleftrightarrow> record_field r ''name'' = Some (JStr (RECORD_NAME cfg))) \<and>
           (keeps_field ''proxied'' r req
              \<longleftrightarrow> record_field r ''proxied'' = Some (JBool False))))"
proof -
  obtain gs ws where c: "calls_of (snd (update_dns cfg env)) = gs @ ws"
    and gs: "\<forall>g\<in>set gs. \<exists>s. g = service_request s"
    and ws: "ws = [] \<or> ws = [list_request cfg] \<or>
      (\<exists>ip. ws = [list_request cfg, create_request cfg ip]) \<or>
      (\<exists>ip rid. ws = [list_request cfg, update_request cfg rid ip])"
    using update_dns_calls [of cfg env] by iprover
  have g0: "filter is_write gs = []"
    using gs by (auto simp: filter_empty_conv)
  have wl: "length (filter is_write ws) \<le> 1"
    using ws by (elim disjE exE) (simp_all add: request_kinds)
  have a: "length (write_calls (snd (update_dns cfg env))) \<le> 1"
    using wl by (simp add: write_calls_def c g0)
  have gm: "meth req = ''GET''" if "req \<in> set gs" for req
    using that gs by (auto simp: meths)
  have wm: "meth req = ''GET'' \<or> meth req = ''POST'' \<or> meth req = ''PUT''"
    if "req \<in> set ws" for req
    using ws that by (elim disjE exE) (auto simp add: meths)
  have b: "meth req = ''GET'' \<or> meth req = ''POST'' \<or> meth req = ''PUT''"
    if "req \<in> set (calls_of (snd (update_dns cfg env)))" for req
  proof -
    from that have "req \<in> set gs \<or> req \<in> set ws" by (simp add: c)
    then show ?thesis
      using gm [of req] wm [of req] by auto
  qed
  have e: "\<exists>ip r rs rid.
           resolved_ip cfg env = Some ip \<and> listed_records cfg env = Some (r # rs) \<and>
           record_field r ''id'' = Some rid \<and>
           target req = ApiUrl (ZONE_ID cfg) (DnsRecord rid) \<and>
           body_field req ''type'' = Some (JStr (RECORD_TYPE cfg)) \<and>
           body_field req ''name'' = Some (JStr (RECORD_NAME cfg)) \<and>
           body_field req ''content'' = Some (JStr ip) \<and>
           body_field req ''ttl'' = Some (JNum (TTL cfg)) \<and>
           body_field req ''proxied'' = Some (JBool False) \<and>
           (keeps_field ''type'' r req
              \<longleftrightarrow> record_field r ''type'' = Some (JStr (RECORD_TYPE cfg))) \<and>
           (keeps_field ''name'' r req
              \<longleftrightarrow> record_field r ''name'' = Some (JStr (RECORD_NAME cfg))) \<and>
           (keeps_field ''proxied'' r req
              \<longleftrightarrow> record_field r ''proxied'' = Some (JBool False))"
    if "req \<in> set (calls_of (snd (update_dns cfg env)))" "meth req = ''PUT''" for req
  proof -
    from update_dns_put [OF that] obtain ip r rs rid where
      ip: "resolved_ip cfg env = Some ip" and ls: "listed_records cfg env = Some (r # rs)"
      and rid: "record_field r ''id'' = Some rid" and req: "req = update_request cfg rid ip"
      by iprover
    have t: "target req = ApiUrl (ZONE_ID cfg) (DnsRecord rid)"
      by (simp add: req update_request_def requests_put_def api_url_def)
    have f: "body_field req ''type'' = Some (JStr (RECORD_TYPE cfg))"
      "body_field req ''name'' = Some (JStr (RECORD_NAME cfg))"
      "body_field req ''content'' = Some (JStr ip)"
      "body_field req ''ttl'' = Some (JNum (TTL cfg))"
      "body_field req ''proxied'' = Some (JBool False)"
      unfolding req by (rule body_field_update_request)+
    have k: "keeps_field ''type'' r req
              \<longleftrightarrow> record_field r ''type'' = Some (JStr (RECORD_TYPE cfg))"
      "keeps_field ''name'' r req
              \<longleftrightarrow> record_field r ''name'' = Some (JStr (RECORD_NAME cfg))"
      "keeps_field ''proxied'' r req
              \<longleftrightarrow> record_field r ''proxied'' = Some (JBool False)"
      by (auto simp: keeps_field_def f)
    show ?thesis
      by (intro exI [of _ ip] exI [of _ r] exI [of _ rs] exI [of _ rid] conjI)
        (rule ip ls rid t f k)+
  qed
  show ?thesis
  proof (intro conjI)
    show "length (write_calls (snd (update_dns cfg env))) \<le> 1"
      by (rule a)
    show "\<forall>req\<in>set (calls_of (snd (update_dns cfg env))).
            meth req = ''GET'' \<or> meth req = ''POST'' \<or> meth req = ''PUT''"
      by (intro ballI) (erule b)
  qed (intro ballI impI, erule (1) e)
qed

lemma proxied_world_run:
  "snd (update_dns cfg_a proxied_world) =
     Log INFO (MsgStart (RECORD_NAME cfg_a)) # snd (get_public_ip cfg_a proxied_world)
       @ [Call (list_request cfg_a), Log INFO (MsgChanged (JStr ''203.0.113.1'') ''203.0.113.9''),
          Call (update_request cfg_a (JStr ''r1'') ''203.0.113.9''),
          Log INFO (MsgUpdated (RECORD_NAME cfg_a) ''203.0.113.9''), Log INFO MsgDone]"
proof -
  have ip: "resolved_ip cfg_a proxied_world = Some ''203.0.113.9''"
    by (simp add: resolved_ip_def proxied_world_def get_public_ip_second_new)
  have ls: "listed_records cfg_a proxied_world = Some [proxied_record]"
    by (simp add: listed_records_def provider_success_def list_request_def requests_get_def
        proxied_world_def world_def api_url_def listing_def ok_json_def)
  have rid: "record_field proxied_record ''id'' = Some (JStr ''r1'')"
    and c: "record_field proxied_record ''content'' = Some (JStr ''203.0.113.1'')"
    and ne: "JStr ''203.0.113.1'' \<noteq> JStr ''203.0.113.9''"
    by (simp_all add: proxied_record_def)
  have ok: "provider_success proxied_world (update_request cfg_a (JStr ''r1'') ''203.0.113.9'')
              = Some [(''success'', JBool True), (''result'', one_record ''r1'' ''203.0.113.9'')]"
    by (simp add: provider_success_def update_request_def requests_put_def
        proxied_world_def world_def api_url_def updated_reply_def ok_json_def)
  show ?thesis
    by (simp add: update_dns_syncs(2) [OF ip ls] sync_record_success [OF rid c ne ok]
        multiple_warning_def)
qed

lemma proxied_world_calls:
  "calls_of (snd (update_dns cfg_a proxied_world)) =
     [service_request ''https://api.ipify.org'', service_request ''https://ipv4.icanhazip.com'',
      list_request cfg_a, update_request cfg_a (JStr ''r1'') ''203.0.113.9'']"
proof -
  have "get_public_ip cfg_a proxied_world =
     (Inr (Some ''203.0.113.9''),
      [Call (service_request ''https://api.ipify.org''),
       Log DEBUG (MsgServiceFailed ''https://api.ipify.org'' (RequestException ''timed out'' None)),
       Call (service_request ''https://ipv4.icanhazip.com''),
       Log INFO (MsgGotIp ''203.0.113.9'')])"
    by (simp add: proxied_world_def get_public_ip_second_new)
  then show ?thesis
    by (simp add: proxied_world_run)
qed

theorem one_write_no_delete_witness:
  "length (write_calls (snd (update_dns cfg_a proxied_world))) \<le> 1 \<and>
   target (update_request cfg_a (JStr ''r1'') ''203.0.113.9'')
     = ApiUrl (ZONE_ID cfg_a) (DnsRecord (JStr ''r1'')) \<and>
   body_field (update_request cfg_a (JStr ''r1'') ''203.0.113.9'') ''content''
     = Some (JStr ''203.0.113.9'') \<and>
   body_field (update_request cfg_a (JStr ''r1'') ''203.0.113.9'') ''proxied'' = Some (JBool False) \<and>
   keeps_field ''type'' proxied_record (update_request cfg_a (JStr ''r1'') ''203.0.113.9'') \<and>
   keeps_field ''name'' proxied_record (update_request cfg_a (JStr ''r1'') ''203.0.113.9'')"
proof -
  let ?req = "update_request cfg_a (JStr ''r1'') ''203.0.113.9''"
  note t = one_write_no_delete [of cfg_a proxied_world]
  from t have 1: "length (write_calls (snd (update_dns cfg_a proxied_world))) \<le> 1"
    by (rule conjunct1)
  have mem: "?req \<in> set (calls_of (snd (update_dns cfg_a proxied_world)))"
    by (simp add: proxied_world_calls)
  have put: "meth ?req = ''PUT''"
    by (simp add: update_request_def requests_put_def)
  have ip0: "resolved_ip cfg_a proxied_world = Some ''203.0.113.9''"
    by (simp add: resolved_ip_def proxied_world_def get_public_ip_second_new)
  have ls0: "listed_records cfg_a proxied_world = Some [proxied_record]"
    by (simp add: listed_records_def provider_success_def list_request_def requests_get_def
        proxied_world_def world_def api_url_def listing_def ok_json_def)
  have m: "record_field proxied_record ''id'' = Some (JStr ''r1'')"
    "record_field proxied_record ''type'' = Some (JStr (RECORD_TYPE cfg_a))"
    "record_field proxied_record ''name'' = Some (JStr (RECORD_NAME cfg_a))"
    by (simp_all add: proxied_record_def cfg_a_def)
  note ex = t [THEN conjunct2, THEN conjunct2, THEN bspec, OF mem, THEN mp, OF put]
  from ex obtain ip where "\<exists>r rs rid.
           resolved_ip cfg_a proxied_world = Some ip \<and>
           listed_records cfg_a proxied_world = Some (r # rs) \<and>
           record_field r ''id'' = Some rid \<and>
           target ?req = ApiUrl (ZONE_ID cfg_a) (DnsRecord rid) \<and>
           body_field ?req ''type'' = Some (JStr (RECORD_TYPE cfg_a)) \<and>
           body_field ?req ''name'' = Some (JStr (RECORD_NAME cfg_a)) \<and>
           body_field ?req ''content'' = Some (JStr ip) \<and>
           body_field ?req ''ttl'' = Some (JNum (TTL cfg_a)) \<and>
           body_field ?req ''proxied'' = Some (JBool False) \<and>
           (keeps_field ''type'' r ?req
              \<longleftrightarrow> record_field r ''type'' = Some (JStr (RECORD_TYPE cfg_a))) \<and>
           (keeps_field ''name'' r ?req
              \<longleftrightarrow> record_field r ''name'' = Some (JStr (RECORD_NAME cfg_a))) \<and>
           (keeps_field ''proxied'' r ?req
              \<longleftrightarrow> record_field r ''proxied'' = Some (JBool False))" ..
  then obtain r where "\<exists>rs rid.
           resolved_ip cfg_a proxied_world = Some ip \<and>
           listed_records cfg_a proxied_world = Some (r # rs) \<and>
           record_field r ''id'' = Some rid \<and>
           target ?req = ApiUrl (ZONE_ID cfg_a) (DnsRecord rid) \<and>
           body_field ?req ''type'' = Some (JStr (RECORD_TYPE cfg_a)) \<and>
           body_field ?req ''name'' = Some (JStr (RECORD_NAME cfg_a)) \<and>
           body_field ?req ''content'' = Some (JStr ip) \<and>
           body_field ?req ''ttl'' = Some (JNum (TTL cfg_a)) \<and>
           body_field ?req ''proxied'' = Some (JBool False) \<and>
           (keeps_field ''type'' r ?req
              \<longleftrightarrow> record_field r ''type'' = Some (JStr (RECORD_TYPE cfg_a))) \<and>
           (keeps_field ''name'' r ?req
              \<longleftrightarrow> record_field r ''name'' = Some (JStr (RECORD_NAME cfg_a))) \<and>
           (keeps_field ''proxied'' r ?req
              \<longleftrightarrow> record_field r ''proxied'' = Some (JBool False))" ..
  then obtain rs where "\<exists>rid.
           resolved_ip cfg_a proxied_world = Some ip \<and>
           listed_records cfg_a proxied_world = Some (r # rs) \<and>
           record_field r ''id'' = Some rid \<and>
           target ?req = ApiUrl (ZONE_ID cfg_a) (DnsRecord rid) \<and>
           body_field ?req ''type'' = Some (JStr (RECORD_TYPE cfg_a)) \<and>
           body_field ?req ''name'' = Some (JStr (RECORD_NAME cfg_a)) \<and>
           body_field ?req ''content'' = Some (JStr ip) \<and>
           body_field ?req ''ttl'' = Some (JNum (TTL cfg_a)) \<and>
           body_field ?req ''proxied'' = Some (JBool False) \<and>
           (keeps_field ''type'' r ?req
              \<longleftrightarrow> record_field r ''type'' = Some (JStr (RECORD_TYPE cfg_a))) \<and>
           (keeps_field ''name'' r ?req
              \<longleftrightarrow> record_field r ''name'' = Some (JStr (RECORD_NAME cfg_a))) \<and>
           (keeps_field ''proxied'' r ?req
              \<longleftrightarrow> record_field r ''proxied'' = Some (JBool False))" ..
  then obtain rid where big:
          "resolved_ip cfg_a proxied_world = Some ip \<and>
           listed_records cfg_a proxied_world = Some (r # rs) \<and>
           record_field r ''id'' = Some rid \<and>
           target ?req = ApiUrl (ZONE_ID cfg_a) (DnsRecord rid) \<and>
           body_field ?req ''type'' = Some (JStr (RECORD_TYPE cfg_a)) \<and>
           body_field ?req ''name'' = Some (JStr (RECORD_NAME cfg_a)) \<and>
           body_field ?req ''content'' = Some (JStr ip) \<and>
           body_field ?req ''ttl'' = Some (JNum (TTL cfg_a)) \<and>
           body_field ?req ''proxied'' = Some (JBool False) \<and>
           (keeps_field ''type'' r ?req
              \<longleftrightarrow> record_field r ''type'' = Some (JStr (RECORD_TYPE cfg_a))) \<and>
           (keeps_field ''name'' r ?req
              \<longleftrightarrow> record_field r ''name'' = Some (JStr (RECORD_NAME cfg_a))) \<and>
           (keeps_field ''proxied'' r ?req
              \<longleftrightarrow> record_field r ''proxied'' = Some (JBool False))" ..
  from big have q1: "resolved_ip cfg_a proxied_world = Some ip"
    by (elim conjE)
  from big have q2: "listed_records cfg_a proxied_world = Some (r # rs)"
    by (elim conjE)
  from big have q3: "record_field r ''id'' = Some rid"
    by (elim conjE)
  from big have q4: "target ?req = ApiUrl (ZONE_ID cfg_a) (DnsRecord rid)"
    by (elim conjE)
  from big have q5: "body_field ?req ''content'' = Some (JStr ip)"
    by (elim conjE)
  from big have q6: "body_field ?req ''proxied'' = Some (JBool False)"
    by (elim conjE)
  from big have q7: "keeps_field ''type'' r ?req
      \<longleftrightarrow> record_field r ''type'' = Some (JStr (RECORD_TYPE cfg_a))"
    by (elim conjE)
  from big have q8: "keeps_field ''name'' r ?req
      \<longleftrightarrow> record_field r ''name'' = Some (JStr (RECORD_NAME cfg_a))"
    by (elim conjE)
  note q = q1 q2 q3 q4 q5 q6 q7 q8
  from q(1) ip0 have ip: "ip = ''203.0.113.9''" by simp
  from q(2) ls0 have r: "r = proxied_record" by simp
  from q(3) r m(1) have rid: "rid = JStr ''r1''" by simp
  from q(4) rid have 2: "target ?req = ApiUrl (ZONE_ID cfg_a) (DnsRecord (JStr ''r1''))"
    by simp
  from q(5) ip have 3: "body_field ?req ''content'' = Some (JStr ''203.0.113.9'')"
    by simp
  from q(7) r m(2) have 5: "keeps_field ''type'' proxied_record ?req" by simp
  from q(8) r m(3) have 6: "keeps_field ''name'' proxied_record ?req" by simp
  from 1 2 3 q(6) 5 6 show ?thesis by (intro conjI)
qed

section \<open>An update of a proxied record\<close>

text \<open>The listed record is proxied and matches the name and type of the configuration;
  its address is old. The run sends one update, whose body sets \<^verbatim>\<open>proxied\<close> to false: the
  proxied status of the record is not kept.\<close>

theorem proxied_status_overwritten:
  "listed_records cfg_a proxied_world = Some [proxied_record] \<and>
   record_field proxied_record ''type'' = Some (JStr (RECORD_TYPE cfg_a)) \<and>
   record_field proxied_record ''name'' = Some (JStr (RECORD_NAME cfg_a)) \<and>
   record_field proxied_record ''proxied'' = Some (JBool True) \<and>
   calls_of (snd (update_dns cfg_a proxied_world)) =
     [service_request ''https://api.ipify.org'', service_request ''https://ipv4.icanhazip.com'',
      list_request cfg_a, update_request cfg_a (JStr ''r1'') ''203.0.113.9''] \<and>
   body_field (update_request cfg_a (JStr ''r1'') ''203.0.113.9'') ''proxied'' = Some (JBool False) \<and>
   \<not> keeps_field ''proxied'' proxied_record (update_request cfg_a (JStr ''r1'') ''203.0.113.9'')"
proof -
  have ls: "listed_records cfg_a proxied_world = Some [proxied_record]"
    by (simp add: listed_records_def provider_success_def list_request_def requests_get_def
        proxied_world_def world_def api_url_def listing_def ok_json_def)
  have f: "record_field proxied_record ''type'' = Some (JStr (RECORD_TYPE cfg_a))"
    "record_field proxied_record ''name'' = Some (JStr (RECORD_NAME cfg_a))"
    "record_field proxied_record ''proxied'' = Some (JBool True)"
    by (simp_all add: proxied_record_def cfg_a_def)
  have b: "body_field (update_request cfg_a (JStr ''r1'') ''203.0.113.9'') ''proxied'' = Some (JBool False)"
    by (rule body_field_update_request)
  have k: "\<not> keeps_field ''proxied'' proxied_record (update_request cfg_a (JStr ''r1'') ''203.0.113.9'')"
    by (simp add: keeps_field_def b f)
  from ls f proxied_world_calls b k show ?thesis by (intro conjI)
qed

lemma error_answer_failure:
  assumes "env req = Return r" and "http_error r = Some msg"
    and "json_body r = Inr (JObj kvs)" and "map_of kvs ''errors'' = Some (JArr es)"
    and "error_messages es = Some ms"
  shows "provider_failure env req = Some (Message (JStr (msg @ '' | '' @ join '', '' ms)))"
    and "snd (api_outcome req (env req))
           = [Call req, Log ERROR (MsgApiRequestFailed (msg @ '' | '' @ join '', '' ms))]"
proof -
  have "reported msg (Some r) = msg @ '' | '' @ join '', '' ms"
    by (simp add: reported_def error_detail_def assms)
  then show "provider_failure env req = Some (Message (JStr (msg @ '' | '' @ join '', '' ms)))"
    and "snd (api_outcome req (env req))
           = [Call req, Log ERROR (MsgApiRequestFailed (msg @ '' | '' @ join '', '' ms))]"
    by (simp_all add: provider_failure_def api_outcome_def api_failed_def assms(1,2))
qed

lemma run_errors_simps:
  "run_errors [] = []"
  "run_errors (t @ u) = run_errors t @ run_errors u"
  "run_errors (Call r # t) = run_errors t"
  "run_errors (Log lv m # t) = error_of (Log lv m) @ run_errors t"
  by (simp_all add: run_errors_def)

lemma run_errors_resolver: "run_errors (snd (try_services env urls)) = []"
proof (induction urls)
  case Nil
  show ?case by (simp add: bind_def logger_def ret_def run_errors_def)
next
  case (Cons s rest)
  then show ?case
    by (auto simp add: try_services_Cons run_errors_simps simp del: try_services.simps
        split: reply.splits option.splits)
qed

lemma run_errors_get_public_ip: "run_errors (snd (get_public_ip cfg env)) = []"
  by (simp add: get_public_ip_def raise_def run_errors_resolver run_errors_simps
      split: option.splits)

lemma update_with_ip_list_failure:
  assumes "provider_failure env (list_request cfg) = Some e"
  shows "update_with_ip cfg env ip =
           (Inr False,
            snd (api_outcome (list_request cfg) (env (list_request cfg)))
              @ [Log ERROR (MsgApiError e), Log ERROR MsgFailed])"
proof -
  obtain j where j: "fst (api_outcome (list_request cfg) (env (list_request cfg))) = Inr j"
    "get_success j = Inr False" "first_error j = Inr e"
    using provider_failure_outcome [OF assms] by iprover
  then obtain t where t: "api_outcome (list_request cfg) (env (list_request cfg)) = (Inr j, t)"
    by (cases "api_outcome (list_request cfg) (env (list_request cfg))") simp
  show ?thesis
    by (simp add: update_with_ip_def cf_api_request_GET list_request_def [symmetric] t j
        bind_logger bind_pair_Inr bind_lift_Inr ret_def)
qed

section \<open>The error a failed call reports\<close>

text \<open>Claim C6, as the code has it. When the list, create or update call of a run is
  answered with an error status and a body that decodes to an object whose \<^verbatim>\<open>errors\<close> is a
  non-empty array of objects with string messages, the run returns \<^verbatim>\<open>False\<close> and the error
  it reports is the text of the HTTP error, then \<^verbatim>\<open>" | "\<close>, then the messages of the array
  joined by \<^verbatim>\<open>", "\<close>. The same text is logged by \<^verbatim>\<open>cf_api_request\<close>.\<close>

theorem provider_messages_reported:
  assumes "env req = Return r" and "http_error r = Some msg"
    and "json_body r = Inr (JObj kvs)" and "map_of kvs ''errors'' = Some (JArr es)"
    and "es \<noteq> []" and "error_messages es = Some ms"
    and "resolved_ip cfg env = Some ip"
    and "req = list_request cfg \<or>
         (req = create_request cfg ip \<and> listed_records cfg env = Some []) \<or>
         (req = update_request cfg rid ip \<and> listed_records cfg env = Some (rec # rs) \<and>
          record_field rec ''id'' = Some rid \<and> record_field rec ''content'' = Some c \<and>
          c \<noteq> JStr ip)"
  shows "fst (update_dns cfg env) = Inr False \<and>
         run_errors (snd (update_dns cfg env))
           = [Message (JStr (msg @ '' | '' @ join '', '' ms))] \<and>
         (ERROR, MsgApiRequestFailed (msg @ '' | '' @ join '', '' ms))
           \<in> set (logs_of (snd (update_dns cfg env)))"
proof -
  let ?M = "msg @ '' | '' @ join '', '' ms"
  note f = error_answer_failure [of env req r msg kvs es ms, OF assms(1,2,3,4,6)]
  note g = run_errors_get_public_ip [of cfg env]
  from assms(8) consider
      (list) "req = list_request cfg"
    | (create) "req = create_request cfg ip" "listed_records cfg env = Some []"
    | (update) "req = update_request cfg rid ip" "listed_records cfg env = Some (rec # rs)"
        "record_field rec ''id'' = Some rid" "record_field rec ''content'' = Some c"
        "c \<noteq> JStr ip"
    by iprover
  then show ?thesis
  proof cases
    case list
    note pf = f(1) [unfolded list]
    note t = f(2) [unfolded list]
    show ?thesis
      by (simp add: update_dns_resolved [OF assms(7)] update_with_ip_list_failure [OF pf] t
          run_errors_simps g logs_of_append)
  next
    case create
    note pf = f(1) [unfolded create(1)]
    note t = f(2) [unfolded create(1)]
    obtain lk where lk: "provider_success env (list_request cfg) = Some lk"
      "map_of lk ''result'' = Some (JArr [])"
      using listed_records_success [OF create(2)] by iprover
    have e: "map_of lk ''result'' = None \<or> (\<exists>v. map_of lk ''result'' = Some v \<and> \<not> truthy v)"
      by (simp add: lk(2))
    note u = update_dns_creates [OF assms(7) lk(1) e]
    show ?thesis
      by (simp add: u(1,2) create_record_failure [OF pf] t run_errors_simps g logs_of_append)
  next
    case update
    note pf = f(1) [unfolded update(1)]
    note t = f(2) [unfolded update(1)]
    note u = update_dns_syncs [OF assms(7) update(2)]
    show ?thesis
      by (simp add: u sync_record_failure [OF update(3,4,5) pf] t run_errors_simps g
          logs_of_append multiple_warning_def)
  qed
qed

lemma no_record_world_facts:
  "resolved_ip cfg_a (no_record_world wr) = Some ''203.0.113.5''"
  "listed_records cfg_a (no_record_world wr) = Some []"
  "provider_success (no_record_world wr) (list_request cfg_a)
     = Some [(''success'', JBool True), (''result'', JArr [])]"
  "no_record_world wr (create_request cfg_a ''203.0.113.5'') = wr"
  by (simp_all add: resolved_ip_def no_record_world_def get_public_ip_second
      listed_records_def provider_success_def list_request_def requests_get_def
      create_request_def requests_post_def world_def api_url_def listing_def ok_json_def)

lemma no_record_world_failure:
  assumes "provider_failure (no_record_world wr) (create_request cfg_a ''203.0.113.5'') = Some e"
  shows "run_errors (snd (update_dns cfg_a (no_record_world wr))) =
           run_errors (snd (api_outcome (create_request cfg_a ''203.0.113.5'') wr)) @ [e]"
proof -
  have e: "map_of [(''success'', JBool True), (''result'', JArr [])] ''result'' = None \<or>
           (\<exists>v. map_of [(''success'', JBool True), (''result'', JArr [])] ''result'' = Some v \<and> \<not> truthy v)"
    by simp
  note u = update_dns_creates(2) [OF no_record_world_facts(1) no_record_world_facts(3) e, of wr]
  show ?thesis
    by (simp add: u create_record_failure [OF assms] run_errors_simps run_errors_get_public_ip
        no_record_world_facts(4))
qed

theorem provider_messages_reported_witness:
  "fst (update_dns cfg_a (no_record_world refused_reply)) = Inr False \<and>
   run_errors (snd (update_dns cfg_a (no_record_world refused_reply)))
     = [Message (JStr (''403 Client Error'' @ '' | ''
          @ join '', '' [''Authentication error'', ''Forbidden'']))]"
proof -
  let ?r = "\<lparr>http_error = Some ''403 Client Error'', body_text = [],
             json_body = Inr (JObj [(''success'', JBool False),
               (''errors'', JArr [JObj [(''message'', JStr ''Authentication error'')],
                                  JObj [(''message'', JStr ''Forbidden'')]])])\<rparr>"
  let ?es = "[JObj [(''message'', JStr ''Authentication error'')],
              JObj [(''message'', JStr ''Forbidden'')]]"
  let ?kvs = "[(''success'', JBool False), (''errors'', JArr ?es)]"
  have 1: "no_record_world refused_reply (create_request cfg_a ''203.0.113.5'') = Return ?r"
    by (simp add: no_record_world_facts(4) refused_reply_def bad_status_def)
  have 2: "http_error ?r = Some ''403 Client Error''" by simp
  have 3: "json_body ?r = Inr (JObj ?kvs)" by simp
  have 4: "map_of ?kvs ''errors'' = Some (JArr ?es)" by simp
  have 5: "?es \<noteq> []" by simp
  have 6: "error_messages ?es = Some [''Authentication error'', ''Forbidden'']" by simp
  have 8: "create_request cfg_a ''203.0.113.5'' = list_request cfg_a \<or>
         (create_request cfg_a ''203.0.113.5'' = create_request cfg_a ''203.0.113.5'' \<and>
          listed_records cfg_a (no_record_world refused_reply) = Some []) \<or>
         (create_request cfg_a ''203.0.113.5'' = update_request cfg_a JNull ''203.0.113.5'' \<and>
          listed_records cfg_a (no_record_world refused_reply) = Some (JNull # []) \<and>
          record_field JNull ''id'' = Some JNull \<and> record_field JNull ''content'' = Some JNull \<and>
          JNull \<noteq> JStr ''203.0.113.5'')"
    by (simp add: no_record_world_facts(2))
  from provider_messages_reported [OF 1 2 3 4 5 6 no_record_world_facts(1) 8]
  show ?thesis by (elim conjE) (intro conjI)
qed

section \<open>The error reported is not the joined messages alone\<close>

text \<open>The create call is refused with status 403 and two messages. The error the run
  reports starts with the text of the HTTP error; it is not the two messages joined.\<close>

theorem http_error_text_prefixed:
  "run_errors (snd (update_dns cfg_a (no_record_world refused_reply)))
     = [Message (JStr ''403 Client Error | Authentication error, Forbidden'')] \<and>
   join '', '' [''Authentication error'', ''Forbidden''] = ''Authentication error, Forbidden'' \<and>
   run_errors (snd (update_dns cfg_a (no_record_world refused_reply)))
     \<noteq> [Message (JStr (join '', '' [''Authentication error'', ''Forbidden'']))]"
proof -
  have pf: "provider_failure (no_record_world refused_reply) (create_request cfg_a ''203.0.113.5'')
              = Some (Message (JStr ''403 Client Error | Authentication error, Forbidden''))"
    by (simp add: provider_failure_def no_record_world_facts(4) refused_reply_def bad_status_def
        reported_def error_detail_def)
  have "run_errors (snd (api_outcome (create_request cfg_a ''203.0.113.5'') refused_reply)) = []"
    by (simp add: api_outcome_def api_failed_def refused_reply_def bad_status_def
        run_errors_simps)
  with no_record_world_failure [OF pf]
  have "run_errors (snd (update_dns cfg_a (no_record_world refused_reply)))
     = [Message (JStr ''403 Client Error | Authentication error, Forbidden'')]"
    by simp
  then show ?thesis by simp
qed

text \<open>With a success status and \<^verbatim>\<open>success\<close> false in the body, line 305 reads the first
  message of the array only.\<close>

lemma first_message_only:
  "run_errors (snd (update_dns cfg_a (no_record_world soft_refusal)))
     = [Message (JStr ''Authentication error'')]"
proof -
  have pf: "provider_failure (no_record_world soft_refusal) (create_request cfg_a ''203.0.113.5'')
              = Some (Message (JStr ''Authentication error''))"
    by (simp add: provider_failure_def no_record_world_facts(4) soft_refusal_def ok_json_def
        get_success_def first_error_def get_default_def)
  have "run_errors (snd (api_outcome (create_request cfg_a ''203.0.113.5'') soft_refusal)) = []"
    by (simp add: api_outcome_def soft_refusal_def ok_json_def run_errors_simps)
  with no_record_world_failure [OF pf] show ?thesis
    by simp
qed










section \<open>Exit codes\<close>



section \<open>Exit code 0 without a reconciliation\<close>


end
